theory Spec2Isabelle
  imports Complex_Main
begin

section \<open>JavaScript strings\<close>

text \<open>
  A JavaScript string is a sequence of UTF-16 code units. A code unit is represented by
  its numeric value, so that the Latin-1 test of \<^verbatim>\<open>btoa\<close> and the white-space
  classes of \<^verbatim>\<open>trim\<close> and \<^verbatim>\<open>\s\<close> can be written out. \<open>js\<close> turns an ASCII
  literal into such a string.
\<close>

type_synonym jsstring = "nat list"

definition js :: "string \<Rightarrow> jsstring" where
  "js s = map of_char s"

text \<open>
  White space as \<^verbatim>\<open>String.prototype.trim\<close> and the regular expression class
  \<^verbatim>\<open>\s\<close> define it: TAB, LF, VT, FF, CR, SP, NBSP, U+1680, U+2000..U+200A, U+2028,
  U+2029, U+202F, U+205F, U+3000 and U+FEFF.
\<close>

definition is_space :: "nat \<Rightarrow> bool" where
  "is_space c \<longleftrightarrow>
     (9 \<le> c \<and> c \<le> 13) \<or> c = 32 \<or> c = 160 \<or> c = 5760 \<or> (8192 \<le> c \<and> c \<le> 8202) \<or>
     c = 8232 \<or> c = 8233 \<or> c = 8239 \<or> c = 8287 \<or> c = 12288 \<or> c = 65279"

definition trim :: "jsstring \<Rightarrow> jsstring" where
  "trim s = rev (dropWhile is_space (rev (dropWhile is_space s)))"

text \<open>\<^verbatim>\<open>s.substring(0, n)\<close> for a constant \<open>n\<close>.\<close>

definition substring0 :: "nat \<Rightarrow> jsstring \<Rightarrow> jsstring" where
  "substring0 n s = take n s"

text \<open>\<^verbatim>\<open>s.includes(p)\<close>: \<open>p\<close> occurs in \<open>s\<close> as a contiguous run.\<close>

fun includes_str :: "jsstring \<Rightarrow> jsstring \<Rightarrow> bool" where
  "includes_str [] p = (p = [])"
| "includes_str (c # cs) p = (take (length p) (c # cs) = p \<or> includes_str cs p)"

text \<open>
  \<^verbatim>\<open>s.replace(/X+/g, r)\<close> for a character class \<open>X\<close>: every maximal run of
  code units in the class is replaced by \<open>r\<close>.
\<close>

function replace_runs :: "(nat \<Rightarrow> bool) \<Rightarrow> jsstring \<Rightarrow> jsstring \<Rightarrow> jsstring" where
  "replace_runs X r [] = []"
| "replace_runs X r (c # cs) =
     (if X c then r @ replace_runs X r (dropWhile X cs) else c # replace_runs X r cs)"
  by pat_completeness auto
termination
  by (relation "measure (\<lambda>(X, r, s). length s)")
     (auto simp: length_dropWhile_le le_imp_less_Suc)

text \<open>Decimal rendering of a natural number, as a template literal renders it.\<close>

fun digits :: "nat \<Rightarrow> jsstring" where
  "digits n = (if n < 10 then [48 + n] else digits (n div 10) @ [48 + n mod 10])"

declare digits.simps [simp del]

subsection \<open>\<^verbatim>\<open>btoa\<close>\<close>

text \<open>An exception object, with the two properties the scripts read.\<close>

datatype js_error = Exception (name: jsstring) (message: jsstring)

definition Error :: "jsstring \<Rightarrow> js_error" where
  "Error m = Exception (js ''Error'') m"

definition TypeError :: "jsstring \<Rightarrow> js_error" where
  "TypeError m = Exception (js ''TypeError'') m"

definition SyntaxError :: "jsstring \<Rightarrow> js_error" where
  "SyntaxError m = Exception (js ''SyntaxError'') m"

definition InvalidCharacterError :: js_error where
  "InvalidCharacterError =
     Exception (js ''InvalidCharacterError'')
       (js ''Failed to execute 'btoa' on 'Window': The string to be encoded contains characters outside of the Latin1 range.'')"

definition b64_alphabet :: jsstring where
  "b64_alphabet = js ''ABCDEFGHIJKLMNOPQRSTUVWXYZabcdefghijklmnopqrstuvwxyz0123456789+/''"

definition b64_char :: "nat \<Rightarrow> nat" where
  "b64_char i = b64_alphabet ! (i mod 64)"

fun base64 :: "nat list \<Rightarrow> jsstring" where
  "base64 [] = []"
| "base64 [a] = [b64_char (a div 4), b64_char ((a mod 4) * 16), 61, 61]"
| "base64 [a, b] =
     [b64_char (a div 4), b64_char ((a mod 4) * 16 + b div 16), b64_char ((b mod 16) * 4), 61]"
| "base64 (a # b # c # r) =
     [b64_char (a div 4), b64_char ((a mod 4) * 16 + b div 16),
      b64_char ((b mod 16) * 4 + c div 64), b64_char (c mod 64)] @ base64 r"

text \<open>
  \<^verbatim>\<open>btoa\<close> reads each code unit as one byte and throws
  \<^verbatim>\<open>InvalidCharacterError\<close> when a code unit is above 255.
\<close>

definition btoa :: "jsstring \<Rightarrow> js_error + jsstring" where
  "btoa s = (if list_all (\<lambda>c. c \<le> 255) s then Inr (base64 s) else Inl InvalidCharacterError)"

definition is_alnum :: "nat \<Rightarrow> bool" where
  "is_alnum c \<longleftrightarrow> (97 \<le> c \<and> c \<le> 122) \<or> (65 \<le> c \<and> c \<le> 90) \<or> (48 \<le> c \<and> c \<le> 57)"


text \<open>
  \<^verbatim>\<open>toLowerCase\<close> on the ASCII letters. The content script only asks whether the
  result contains \<^verbatim>\<open>default\<close>, and no code unit outside \<^verbatim>\<open>A-Z\<close> lower-cases to
  one of those letters.
\<close>

definition toLowerCase :: "jsstring \<Rightarrow> jsstring" where
  "toLowerCase s = map (\<lambda>c. if 65 \<le> c \<and> c \<le> 90 then c + 32 else c) s"

text \<open>
  A finite JavaScript number is represented by the rational that its decimal text
  denotes: \<^verbatim>\<open>Number::toString\<close> gives every finite number a text of at most 17
  significant digits, different numbers get different texts, in the order of the
  numbers, and an integer below \<open>2\<^sup>5\<^sup>3\<close> is its own text. \<^verbatim>\<open>NaN\<close> and the
  infinities are not represented.

  \<open>number_text\<close> is \<^verbatim>\<open>Number::toString\<close> (ECMA-262, radix 10), which a template
  literal applies to a number: the number is \<open>s \<times> 10\<^bsup>n - k\<^esup>\<close> for the shortest digit
  string \<open>s\<close>, of \<open>k\<close> digits; the digits are written in positional form when
  \<open>-5 \<le> n \<le> 21\<close> and in exponent form otherwise. Of a rational with more than 17
  significant digits, which is the text of no number, the first 17 are kept.
\<close>

fun strip_zeros :: "nat \<Rightarrow> nat" where
  "strip_zeros s = (if s = 0 \<or> s mod 10 \<noteq> 0 then s else strip_zeros (s div 10))"

declare strip_zeros.simps [simp del]

primrec leading_zeros :: "nat \<Rightarrow> rat \<Rightarrow> nat" where
  "leading_zeros 0 q = 0"
| "leading_zeros (Suc fuel) q = (if 1 / 10 \<le> q then 0 else Suc (leading_zeros fuel (q * 10)))"

definition pow10 :: "int \<Rightarrow> rat" where
  "pow10 e = (if 0 \<le> e then 10 ^ nat e else 1 / 10 ^ nat (- e))"

text \<open>
  The \<open>n\<close> with \<open>10\<^bsup>n - 1\<^esup> \<le> q < 10\<^bsup>n\<^esup>\<close>, for \<open>0 < q\<close>; below 1 the search for the
  first digit that is not zero ends within as many steps as the denominator has digits.
\<close>

definition decimal_exponent :: "rat \<Rightarrow> int" where
  "decimal_exponent q =
     (if 1 \<le> q then int (length (digits (nat \<lfloor>q\<rfloor>)))
      else - int (leading_zeros (length (digits (nat (snd (quotient_of q))))) q))"

definition positive_text :: "rat \<Rightarrow> jsstring" where
  "positive_text q =
     (let n = decimal_exponent q;
          s = digits (strip_zeros (nat \<lfloor>q * pow10 (17 - n)\<rfloor>));
          k = int (length s)
      in if - 5 \<le> n \<and> n \<le> 21
         then (if k \<le> n then s @ replicate (nat (n - k)) 48
               else if 0 < n then take (nat n) s @ [46] @ drop (nat n) s
               else [48, 46] @ replicate (nat (- n)) 48 @ s)
         else (if k = 1 then s else take 1 s @ [46] @ drop 1 s) @ [101] @
              (if 0 \<le> n - 1 then [43] else [45]) @ digits (nat \<bar>n - 1\<bar>))"

definition number_text :: "rat \<Rightarrow> jsstring" where
  "number_text q =
     (if q = 0 then [48] else if q < 0 then 45 # positive_text (- q) else positive_text q)"

section \<open>The card watcher (content.js)\<close>

subsection \<open>The page\<close>

text \<open>
  A badge is an element the script creates: \<open>elem\<close> is its identity, \<open>innerText\<close> the
  text content of the markup assigned to \<^verbatim>\<open>innerHTML\<close>.
\<close>

record badge =
  elem :: nat
  className :: jsstring
  title :: jsstring
  innerText :: jsstring

record img =
  src :: jsstring
  alt :: jsstring

text \<open>
  A card is a DOM element of the host page, seen through what the script reads of it:
  \<^item> \<open>ownText\<close>: its text content without the badges of the script;
  \<^item> \<open>selectors\<close>: the selectors of \<^verbatim>\<open>SELECTORS.invitationCard\<close> it matches;
  \<^item> \<open>acceptParent\<close>: the parent of the first descendant matching
    \<^verbatim>\<open>SELECTORS.acceptButton\<close>, if there is one, given by the offset in \<open>ownText\<close> where
    the children of that parent end;
  \<^item> \<open>cardContent\<close>: the first descendant matching \<^verbatim>\<open>SELECTORS.cardContent\<close>, given
    in the same way;
  \<^item> \<open>profileImage\<close>: the first descendant matching \<^verbatim>\<open>SELECTORS.profileImage\<close>;
  \<^item> \<open>badges\<close>: the badges appended inside the card, each with the offset of the
    container it was appended to, in the order of appending.
  Cards are taken not to be nested in one another.
\<close>

record card =
  ownText :: jsstring
  selectors :: "jsstring list"
  acceptParent :: "nat option"
  cardContent :: "nat option"
  profileImage :: "img option"
  badges :: "(nat \<times> badge) list"

definition invitationCard_selectors :: "jsstring list" where
  "invitationCard_selectors =
     [js ''.invitation-card'', js ''[data-test-invitation-card]'', js ''.artdeco-entity-lockup'']"

text \<open>The badges of a card in document order (appended children come last in their container).\<close>

definition badges_in_order :: "card \<Rightarrow> (nat \<times> badge) list" where
  "badges_in_order c = sort_key fst (badges c)"

fun splice :: "nat \<Rightarrow> jsstring \<Rightarrow> (nat \<times> badge) list \<Rightarrow> jsstring" where
  "splice i [] bs = concat (map (innerText \<circ> snd) (filter (\<lambda>b. i \<le> fst b) bs))"
| "splice i (c # cs) bs =
     concat (map (innerText \<circ> snd) (filter (\<lambda>b. fst b = i) bs)) @ c # splice (Suc i) cs bs"

definition textContent :: "card \<Rightarrow> jsstring" where
  "textContent c = splice 0 (ownText c) (badges_in_order c)"

text \<open>\<^verbatim>\<open>card.querySelector('.lead-scorer-badge')\<close>\<close>

definition querySelector_badge :: "card \<Rightarrow> badge option" where
  "querySelector_badge c =
     (case badges_in_order c of [] \<Rightarrow> None | b # _ \<Rightarrow> Some (snd b))"

text \<open>\<^verbatim>\<open>badge.remove()\<close>, for a badge that may or may not be inside the card\<close>

definition remove_badge :: "nat \<Rightarrow> card \<Rightarrow> card" where
  "remove_badge e c = c\<lparr>badges := filter (\<lambda>b. elem (snd b) \<noteq> e) (badges c)\<rparr>"

subsection \<open>Card shape and identity\<close>

definition isValidInvitationCard :: "card \<Rightarrow> bool" where
  "isValidInvitationCard c =
     (let text = trim (textContent c) in
      if text = [] \<or> length text < 10 then False
      else if querySelector_badge c \<noteq> None then False
      else
        let hasAcceptButton = (acceptParent c \<noteq> None);
            hasProfileContent = (cardContent c \<noteq> None \<or>
                                 includes_str text (js ''mutual connection'') \<or>
                                 includes_str text (js ''connection''))
        in hasAcceptButton \<or> hasProfileContent)"

definition isInvitationCard :: "card \<Rightarrow> bool" where
  "isInvitationCard element =
     (list_ex (\<lambda>selector. selector \<in> set (selectors element)) invitationCard_selectors
      \<and> isValidInvitationCard element)"

definition getCardId :: "card \<Rightarrow> js_error + jsstring" where
  "getCardId c =
     (let text = trim (textContent c);
          hash = substring0 100 text
      in case btoa hash of
           Inl e \<Rightarrow> Inl e
         | Inr b \<Rightarrow> Inr (substring0 20 (filter is_alnum b)))"

definition isCardProcessed :: "jsstring set \<Rightarrow> card \<Rightarrow> js_error + bool" where
  "isCardProcessed processedCards c =
     (case getCardId c of
        Inl e \<Rightarrow> Inl e
      | Inr cardId \<Rightarrow> Inr (cardId \<in> processedCards \<or> querySelector_badge c \<noteq> None))"

subsection \<open>Snapshot and badges\<close>

record profileData =
  "text" :: jsstring
  hasProfilePic :: "bool option"

text \<open>
  \<open>hasProfilePic\<close> is the value of the \<^verbatim>\<open>&&\<close> chain: \<^verbatim>\<open>null\<close> (here \<open>None\<close>) when
  no image is found, a boolean otherwise.
\<close>

definition extractProfileData :: "card \<Rightarrow> profileData" where
  "extractProfileData c =
     (let textContent = trim (textContent c);
          hasProfilePic =
            (case profileImage c of
               None \<Rightarrow> None
             | Some profileImg \<Rightarrow>
                 Some (\<not> includes_str (src profileImg) (js ''ghost-person'') \<and>
                       \<not> includes_str (src profileImg) (js ''default-avatar'') \<and>
                       \<not> includes_str (toLowerCase (alt profileImg)) (js ''default'')));
          cleanedText =
            trim (replace_runs (\<lambda>c. c = 10) [10] (replace_runs is_space [32] textContent))
      in \<lparr>text = cleanedText, hasProfilePic = hasProfilePic\<rparr>)"

definition createLoadingBadge :: "nat \<Rightarrow> badge" where
  "createLoadingBadge e =
     \<lparr>elem = e, className = js ''lead-scorer-badge lead-scorer-loading'', title = [],
      innerText = js ''\<newline>        \<newline>        Scoring...\<newline>    ''\<rparr>"

definition getScoreClass :: "rat \<Rightarrow> jsstring" where
  "getScoreClass score =
     (if score \<ge> 20 then js ''score-excellent''
      else if score \<ge> 10 then js ''score-good''
      else if score \<ge> 5 then js ''score-fair''
      else if score \<ge> 0 then js ''score-poor''
      else js ''score-negative'')"

definition createScoreBadge :: "nat \<Rightarrow> rat \<Rightarrow> jsstring \<Rightarrow> badge" where
  "createScoreBadge e score reasoning =
     \<lparr>elem = e,
      className = js ''lead-scorer-badge lead-scorer-score '' @ getScoreClass score,
      title = reasoning,
      innerText = js ''\<newline>        '' @ number_text score @
                  js ''\<newline>        Lead Score\<newline>    ''\<rparr>"

definition createErrorBadge :: "nat \<Rightarrow> jsstring \<Rightarrow> badge" where
  "createErrorBadge e error =
     \<lparr>elem = e, className = js ''lead-scorer-badge lead-scorer-error'', title = error,
      innerText = js ''\<newline>        !\<newline>        Error\<newline>    ''\<rparr>"

definition insertScoreBadge :: "card \<Rightarrow> badge \<Rightarrow> card" where
  "insertScoreBadge c b =
     (let insertLocation =
            (case acceptParent c of
               Some parentElement \<Rightarrow> parentElement
             | None \<Rightarrow>
                 (case cardContent c of
                    Some content \<Rightarrow> content
                  | None \<Rightarrow> length (ownText c)))
      in c\<lparr>badges := badges c @ [(insertLocation, b)]\<rparr>)"

subsection \<open>Processing one card\<close>

datatype console_entry = Log jsstring | Err jsstring

text \<open>
  The reply of the background script to a \<^verbatim>\<open>scoreProfile\<close> message:
  \<^verbatim>\<open>{success: true, score, reasoning}\<close> or \<^verbatim>\<open>{success: false, error}\<close>.
\<close>

datatype reply = Success rat jsstring | Failure jsstring

text \<open>
  What \<^verbatim>\<open>await chrome.runtime.sendMessage(...)\<close> comes back with: a reply, the value
  \<^verbatim>\<open>undefined\<close> when nobody answered, or an exception.
\<close>

datatype send_outcome = Resolved reply | ResolvedUndefined | SendRejected js_error

text \<open>
  \<^verbatim>\<open>processInvitationCard\<close> is an \<^verbatim>\<open>async\<close> function with one \<^verbatim>\<open>await\<close>. Its
  synchronous part ends in one of three ways: the promise is rejected (\<^verbatim>\<open>getCardId\<close>
  is called outside the \<^verbatim>\<open>try\<close> block), it returns early, or it has sent the
  \<^verbatim>\<open>scoreProfile\<close> message and is suspended. \<open>Awaiting cardId loadingBadge profileData\<close>
  keeps the local variables of the suspended call; \<open>profileData\<close> is the payload of the
  message.
\<close>

datatype begun = Rejected js_error | Skipped | Awaiting jsstring nat profileData

definition processInvitationCard_begin ::
    "nat \<Rightarrow> card \<Rightarrow> jsstring set \<Rightarrow> begun \<times> card \<times> jsstring set \<times> console_entry list" where
  "processInvitationCard_begin e c processedCards =
     (case getCardId c of
        Inl err \<Rightarrow> (Rejected err, c, processedCards, [])
      | Inr cardId \<Rightarrow>
          (let processedCards = insert cardId processedCards;
               profileData = extractProfileData c
           in if text profileData = [] \<or> length (text profileData) < 10
              then (Skipped, c, processedCards,
                    [Log (js ''LinkedIn Lead Scorer: Insufficient profile data, skipping card'')])
              else
                let loadingBadge = createLoadingBadge e;
                    c = insertScoreBadge c loadingBadge
                in (Awaiting cardId (elem loadingBadge) profileData, c, processedCards, [])))"

text \<open>The \<^verbatim>\<open>catch\<close> block.\<close>

definition processing_failed :: "nat \<Rightarrow> card \<Rightarrow> card \<times> console_entry list" where
  "processing_failed e c =
     (let c = (case querySelector_badge c of
                 Some existingBadge \<Rightarrow> remove_badge (elem existingBadge) c
               | None \<Rightarrow> c);
          errorBadge = createErrorBadge e (js ''Processing failed'')
      in (insertScoreBadge c errorBadge, [Err (js ''LinkedIn Lead Scorer: Error processing card:'')]))"

text \<open>
  The part after the \<^verbatim>\<open>await\<close>. Reading \<^verbatim>\<open>response.success\<close> of \<^verbatim>\<open>undefined\<close>
  throws after the loading badge is removed; a rejected \<^verbatim>\<open>sendMessage\<close> throws before.
\<close>

definition processInvitationCard_resume ::
    "nat \<Rightarrow> nat \<Rightarrow> send_outcome \<Rightarrow> card \<Rightarrow> card \<times> console_entry list" where
  "processInvitationCard_resume e loadingBadge outcome c =
     (case outcome of
        Resolved response \<Rightarrow>
          (let c = remove_badge loadingBadge c in
           case response of
             Success score reasoning \<Rightarrow>
               (insertScoreBadge c (createScoreBadge e score reasoning),
                [Log (js ''LinkedIn Lead Scorer: Scored profile - Score: '' @ number_text score)])
           | Failure error \<Rightarrow>
               (insertScoreBadge c (createErrorBadge e error),
                [Err (js ''LinkedIn Lead Scorer: Scoring failed:'')]))
      | ResolvedUndefined \<Rightarrow> processing_failed e (remove_badge loadingBadge c)
      | SendRejected err \<Rightarrow> processing_failed e c)"

subsection \<open>The watcher and its events\<close>

text \<open>
  The state of the content script in one page: the set \<^verbatim>\<open>processedCards\<close>, the elements
  of the page (a store of cards by element identity, and the identities attached to the
  document in document order), whether the mutation observer is installed, the suspended
  calls of \<^verbatim>\<open>processInvitationCard\<close> (card and loading badge), the \<^verbatim>\<open>scoreProfile\<close>
  messages sent so far, each with the \<^verbatim>\<open>cardId\<close> of the call that sent it, and the
  console.
\<close>

record watcher =
  processedCards :: "jsstring set"
  elements :: "nat \<Rightarrow> card option"
  page :: "nat list"
  observing :: bool
  nextElem :: nat
  awaiting :: "(nat \<times> nat) list"
  sent :: "(jsstring \<times> profileData) list"
  console :: "console_entry list"

definition processInvitationCard :: "nat \<Rightarrow> watcher \<Rightarrow> watcher" where
  "processInvitationCard h st =
     (case elements st h of
        None \<Rightarrow> st
      | Some c \<Rightarrow>
          (case processInvitationCard_begin (nextElem st) c (processedCards st) of
             (r, c', processed', out) \<Rightarrow>
               st\<lparr>processedCards := processed',
                  elements := (elements st)(h \<mapsto> c'),
                  nextElem := Suc (nextElem st),
                  awaiting := (case r of Awaiting cardId loadingBadge profileData \<Rightarrow>
                                           awaiting st @ [(h, loadingBadge)]
                                       | _ \<Rightarrow> awaiting st),
                  sent := (case r of Awaiting cardId loadingBadge profileData \<Rightarrow>
                                       sent st @ [(cardId, profileData)]
                                   | _ \<Rightarrow> sent st),
                  console := console st @ out\<rparr>))"

text \<open>
  The body shared by the three loops:
  \<^verbatim>\<open>if (!isCardProcessed(card)) { processInvitationCard(card); ... }\<close>. An exception of
  \<^verbatim>\<open>isCardProcessed\<close> is thrown to the caller; the result says whether the card was
  processed.
\<close>

definition visit :: "nat \<Rightarrow> watcher \<Rightarrow> js_error + (bool \<times> watcher)" where
  "visit h st =
     (case elements st h of
        None \<Rightarrow> Inr (False, st)
      | Some c \<Rightarrow>
          (case isCardProcessed (processedCards st) c of
             Inl err \<Rightarrow> Inl err
           | Inr True \<Rightarrow> Inr (False, st)
           | Inr False \<Rightarrow> Inr (True, processInvitationCard h st)))"

text \<open>
  \<^verbatim>\<open>cards.forEach(...)\<close> over that body: an exception ends the loop and leaves the
  effects of the earlier iterations in place.
\<close>

fun forEach_visit :: "nat list \<Rightarrow> bool \<times> watcher \<Rightarrow> js_error option \<times> bool \<times> watcher" where
  "forEach_visit [] (found, st) = (None, found, st)"
| "forEach_visit (h # hs) (found, st) =
     (case visit h st of
        Inl err \<Rightarrow> (Some err, found, st)
      | Inr (f, st') \<Rightarrow> forEach_visit hs (found \<or> f, st'))"

definition querySelectorAll :: "watcher \<Rightarrow> nat list \<Rightarrow> jsstring \<Rightarrow> nat list" where
  "querySelectorAll st scope selector =
     filter (\<lambda>h. case elements st h of
                    None \<Rightarrow> False
                  | Some c \<Rightarrow> selector \<in> set (selectors c)) scope"

definition findInvitationCards :: "watcher \<Rightarrow> nat list" where
  "findInvitationCards st =
     fold (\<lambda>selector cards.
             fold (\<lambda>h cards.
                     if h \<notin> set cards \<and>
                        (case elements st h of None \<Rightarrow> False | Some c \<Rightarrow> isValidInvitationCard c)
                     then cards @ [h] else cards)
                  (querySelectorAll st (page st) selector) cards)
          invitationCard_selectors []"

definition processExistingCards :: "watcher \<Rightarrow> js_error option \<times> watcher" where
  "processExistingCards st =
     (let cards = findInvitationCards st;
          st = st\<lparr>console := console st @
                  [Log (js ''LinkedIn Lead Scorer: Found '' @ digits (length cards) @
                        js '' existing invitation cards'')]\<rparr>
      in case forEach_visit cards (False, st) of (thrown, found, st') \<Rightarrow> (thrown, st'))"

definition isInvitationManagerPage :: "jsstring \<Rightarrow> bool" where
  "isInvitationManagerPage href = includes_str href (js ''/mynetwork/invitation-manager/received'')"

text \<open>
  \<^verbatim>\<open>initialize\<close>: an exception of \<^verbatim>\<open>processExistingCards\<close> leaves the function before
  the observer is set up.
\<close>

definition initialize :: "jsstring \<Rightarrow> watcher \<Rightarrow> watcher" where
  "initialize href st =
     (let st = st\<lparr>console := console st @
                  [Log (js ''LinkedIn Lead Scorer: Initializing content script'')]\<rparr>
      in if \<not> isInvitationManagerPage href
         then st\<lparr>console := console st @
                  [Log (js ''LinkedIn Lead Scorer: Not on invitation manager page'')]\<rparr>
         else
           (case processExistingCards st of
              (Some err, st') \<Rightarrow> st'
            | (None, st') \<Rightarrow>
                st'\<lparr>observing := True,
                    console := console st' @
                      [Log (js ''LinkedIn Lead Scorer: MutationObserver set up''),
                       Log (js ''LinkedIn Lead Scorer: Content script initialized'')]\<rparr>))"

text \<open>
  A node added to the page: something that is not an element, or an element with the
  elements below it in document order.
\<close>

datatype node = OtherNode | Element nat "nat list"

definition matches_invitationCard :: "watcher \<Rightarrow> nat \<Rightarrow> bool" where
  "matches_invitationCard st h =
     (case elements st h of
        None \<Rightarrow> False
      | Some c \<Rightarrow> list_ex (\<lambda>selector. selector \<in> set (selectors c)) invitationCard_selectors)"

definition visit_node :: "node \<Rightarrow> bool \<times> watcher \<Rightarrow> js_error option \<times> bool \<times> watcher" where
  "visit_node n acc =
     (case n of
        OtherNode \<Rightarrow> (None, acc)
      | Element h below \<Rightarrow>
          (case acc of (found, st) \<Rightarrow>
             (case (case elements st h of
                      None \<Rightarrow> Inr (False, st)
                    | Some c \<Rightarrow> if isInvitationCard c then visit h st else Inr (False, st)) of
                Inl err \<Rightarrow> (Some err, found, st)
              | Inr (f, st') \<Rightarrow>
                  forEach_visit (filter (matches_invitationCard st') below) (found \<or> f, st'))))"

fun forEach_node :: "node list \<Rightarrow> bool \<times> watcher \<Rightarrow> js_error option \<times> bool \<times> watcher" where
  "forEach_node [] acc = (None, acc)"
| "forEach_node (n # ns) acc =
     (case visit_node n acc of
        (Some err, acc') \<Rightarrow> (Some err, acc')
      | (None, acc') \<Rightarrow> forEach_node ns acc')"

text \<open>The callback of the mutation observer, on the added nodes of a batch of mutations.\<close>

definition mutation_callback :: "node list list \<Rightarrow> watcher \<Rightarrow> watcher" where
  "mutation_callback mutations st =
     (case forEach_node (concat mutations) (False, st) of
        (Some err, found, st') \<Rightarrow> st'
      | (None, found, st') \<Rightarrow>
          if found
          then st'\<lparr>console := console st' @
                     [Log (js ''LinkedIn Lead Scorer: Processed new invitation cards'')]\<rparr>
          else st')"

text \<open>The listener for \<^verbatim>\<open>extensionReloaded\<close>.\<close>

definition extensionReloaded :: "watcher \<Rightarrow> watcher" where
  "extensionReloaded st = snd (processExistingCards (st\<lparr>processedCards := {}\<rparr>))"

text \<open>A suspended call goes on with what \<^verbatim>\<open>sendMessage\<close> came back with.\<close>

definition deliver :: "nat \<Rightarrow> send_outcome \<Rightarrow> watcher \<Rightarrow> watcher" where
  "deliver k outcome st =
     (if k < length (awaiting st)
      then
        (case awaiting st ! k of (h, loadingBadge) \<Rightarrow>
           (let st = st\<lparr>awaiting := take k (awaiting st) @ drop (Suc k) (awaiting st)\<rparr>
            in case elements st h of
                 None \<Rightarrow> st
               | Some c \<Rightarrow>
                   (case processInvitationCard_resume (nextElem st) loadingBadge outcome c of
                      (c', out) \<Rightarrow>
                        st\<lparr>elements := (elements st)(h \<mapsto> c'),
                           nextElem := Suc (nextElem st),
                           console := console st @ out\<rparr>)))
      else st)"

text \<open>
  What can happen in a page: the script starts, the observer fires, a suspended call is
  resumed, the reload message arrives, or the host page changes its elements.
\<close>

datatype event =
    Initialize jsstring
  | Mutations "node list list"
  | Deliver nat send_outcome
  | ExtensionReloaded
  | HostUpdate "nat \<Rightarrow> card option" "nat list"

fun step :: "event \<Rightarrow> watcher \<Rightarrow> watcher" where
  "step (Initialize href) st = initialize href st"
| "step (Mutations mutations) st = (if observing st then mutation_callback mutations st else st)"
| "step (Deliver k outcome) st = deliver k outcome st"
| "step ExtensionReloaded st = extensionReloaded st"
| "step (HostUpdate els p) st = st\<lparr>elements := els, page := p\<rparr>"

definition run :: "event list \<Rightarrow> watcher \<Rightarrow> watcher" where
  "run evs st = fold step evs st"

definition start :: "(nat \<Rightarrow> card option) \<Rightarrow> nat list \<Rightarrow> watcher" where
  "start els p =
     \<lparr>processedCards = {}, elements = els, page = p, observing = False, nextElem = 0,
      awaiting = [], sent = [], console = []\<rparr>"

section \<open>The provider adapter (background.js)\<close>

subsection \<open>JavaScript values\<close>

text \<open>
  The values \<^verbatim>\<open>JSON.parse\<close> can return, and \<^verbatim>\<open>undefined\<close>. An object is the list
  of its own properties, each name once.
\<close>

datatype jsval =
    Undefined
  | Null
  | Bool bool
  | Num rat
  | Str jsstring
  | Arr "jsval list"
  | Obj "(jsstring \<times> jsval) list"

fun typeof :: "jsval \<Rightarrow> jsstring" where
  "typeof Undefined = js ''undefined''"
| "typeof Null = js ''object''"
| "typeof (Bool b) = js ''boolean''"
| "typeof (Num n) = js ''number''"
| "typeof (Str s) = js ''string''"
| "typeof (Arr xs) = js ''object''"
| "typeof (Obj kvs) = js ''object''"

text \<open>The \<^verbatim>\<open>TypeError\<close> of reading property \<open>k\<close> of \<^verbatim>\<open>undefined\<close> or \<^verbatim>\<open>null\<close>.\<close>

definition cannot_read :: "jsstring \<Rightarrow> jsstring \<Rightarrow> js_error" where
  "cannot_read base k =
     TypeError (js ''Cannot read properties of '' @ base @ js '' (reading '' @ [39] @ k @ [39] @
                js '')'')"

text \<open>
  \<^verbatim>\<open>v.k\<close> for a name \<open>k\<close> that no prototype defines (the scripts read
  \<^verbatim>\<open>choices\<close>, \<^verbatim>\<open>message\<close>, \<^verbatim>\<open>content\<close>, \<^verbatim>\<open>candidates\<close>, \<^verbatim>\<open>parts\<close>,
  \<^verbatim>\<open>text\<close>, \<^verbatim>\<open>totalScore\<close> and \<^verbatim>\<open>reasoning\<close>): reading a property of
  \<^verbatim>\<open>undefined\<close> or \<^verbatim>\<open>null\<close> throws, a missing property is \<^verbatim>\<open>undefined\<close>.
\<close>

fun get_prop :: "jsstring \<Rightarrow> jsval \<Rightarrow> js_error + jsval" where
  "get_prop k Undefined = Inl (cannot_read (js ''undefined'') k)"
| "get_prop k Null = Inl (cannot_read (js ''null'') k)"
| "get_prop k (Obj kvs) = Inr (case map_of kvs k of None \<Rightarrow> Undefined | Some v \<Rightarrow> v)"
| "get_prop k v = Inr Undefined"

text \<open>\<^verbatim>\<open>v[0]\<close>\<close>

fun get_first :: "jsval \<Rightarrow> js_error + jsval" where
  "get_first Undefined = Inl (cannot_read (js ''undefined'') (js ''0''))"
| "get_first Null = Inl (cannot_read (js ''null'') (js ''0''))"
| "get_first (Arr []) = Inr Undefined"
| "get_first (Arr (x # xs)) = Inr x"
| "get_first (Str []) = Inr Undefined"
| "get_first (Str (c # cs)) = Inr (Str [c])"
| "get_first (Obj kvs) = Inr (case map_of kvs (js ''0'') of None \<Rightarrow> Undefined | Some v \<Rightarrow> v)"
| "get_first v = Inr Undefined"

definition and_then :: "js_error + 'a \<Rightarrow> ('a \<Rightarrow> js_error + 'b) \<Rightarrow> js_error + 'b" where
  "and_then r f = (case r of Inl err \<Rightarrow> Inl err | Inr v \<Rightarrow> f v)"

text \<open>
  \<^verbatim>\<open>JSON.parse\<close> is a parameter \<open>parse\<close> of the model: it returns the value, or the
  message of the \<^verbatim>\<open>SyntaxError\<close> it throws.
\<close>

definition JSON_parse :: "(jsval \<Rightarrow> jsstring + jsval) \<Rightarrow> jsval \<Rightarrow> js_error + jsval" where
  "JSON_parse parse v = (case parse v of Inl m \<Rightarrow> Inl (SyntaxError m) | Inr r \<Rightarrow> Inr r)"

subsection \<open>The providers\<close>

record http_request =
  url :: jsstring
  headers :: "(jsstring \<times> jsstring) list"
  body :: jsval

text \<open>\<^verbatim>\<open>response.ok\<close> is true for the statuses 200 to 299.\<close>

record http_response =
  status :: nat
  responseText :: jsstring

definition ok :: "http_response \<Rightarrow> bool" where
  "ok response \<longleftrightarrow> 200 \<le> status response \<and> status response \<le> 299"

datatype fetch_outcome = FetchRejected js_error | FetchResolved http_response

datatype base_url = Fixed jsstring | Computed "jsstring \<Rightarrow> jsstring \<Rightarrow> jsstring"

record api_config =
  baseUrl :: base_url
  config_headers :: "jsstring \<Rightarrow> (jsstring \<times> jsstring) list"
  formatRequest :: "jsstring \<Rightarrow> jsstring \<Rightarrow> profileData \<Rightarrow> jsval"
  parseResponse :: "(jsval \<Rightarrow> jsstring + jsval) \<Rightarrow> jsval \<Rightarrow> js_error + jsval"

text \<open>\<^verbatim>\<open>${profileData.hasProfilePic}\<close>\<close>

definition flag_text :: "bool option \<Rightarrow> jsstring" where
  "flag_text b =
     (case b of None \<Rightarrow> js ''null'' | Some True \<Rightarrow> js ''true'' | Some False \<Rightarrow> js ''false'')"

definition openai :: api_config where
  "openai =
     \<lparr>baseUrl = Fixed (js ''https://api.openai.com/v1/chat/completions''),
      config_headers = (\<lambda>apiKey.
        [(js ''Authorization'', js ''Bearer '' @ apiKey),
         (js ''Content-Type'', js ''application/json'')]),
      formatRequest = (\<lambda>model prompt profileData.
        Obj [(js ''model'', Str model),
             (js ''messages'',
              Arr [Obj [(js ''role'', Str (js ''system'')), (js ''content'', Str prompt)],
                   Obj [(js ''role'', Str (js ''user'')),
                        (js ''content'',
                         Str (js ''Profile Data:\<newline>'' @ text profileData @
                              js ''\<newline>Has Profile Picture: '' @
                              flag_text (hasProfilePic profileData)))]]),
             (js ''max_tokens'', Num 300),
             (js ''temperature'', Num (1 / 10))]),
      parseResponse = (\<lambda>parse response.
        and_then (and_then (and_then (and_then (get_prop (js ''choices'') response) get_first)
          (get_prop (js ''message''))) (get_prop (js ''content''))) (JSON_parse parse))\<rparr>"

definition gemini :: api_config where
  "gemini =
     \<lparr>baseUrl = Computed (\<lambda>model apiKey.
        js ''https://generativelanguage.googleapis.com/v1beta/models/'' @ model @
        js '':generateContent?key='' @ apiKey),
      config_headers = (\<lambda>apiKey. [(js ''Content-Type'', js ''application/json'')]),
      formatRequest = (\<lambda>model prompt profileData.
        Obj [(js ''contents'',
              Arr [Obj [(js ''parts'',
                Arr [Obj [(js ''text'',
                  Str (prompt @ js ''\<newline>\<newline>Profile Data:\<newline>'' @
                       text profileData @ js ''\<newline>Has Profile Picture: '' @
                       flag_text (hasProfilePic profileData)))]])]]),
             (js ''generationConfig'',
              Obj [(js ''temperature'', Num (1 / 10)), (js ''maxOutputTokens'', Num 300)])]),
      parseResponse = (\<lambda>parse response.
        and_then (and_then (and_then (and_then (and_then (and_then
          (get_prop (js ''candidates'') response) get_first) (get_prop (js ''content'')))
          (get_prop (js ''parts''))) get_first) (get_prop (js ''text''))) (JSON_parse parse))\<rparr>"

definition anthropic :: api_config where
  "anthropic =
     \<lparr>baseUrl = Fixed (js ''https://api.anthropic.com/v1/messages''),
      config_headers = (\<lambda>apiKey.
        [(js ''x-api-key'', apiKey),
         (js ''Content-Type'', js ''application/json''),
         (js ''anthropic-version'', js ''2023-06-01'')]),
      formatRequest = (\<lambda>model prompt profileData.
        Obj [(js ''model'', Str model),
             (js ''max_tokens'', Num 300),
             (js ''messages'',
              Arr [Obj [(js ''role'', Str (js ''user'')),
                        (js ''content'',
                         Str (prompt @ js ''\<newline>\<newline>Profile Data:\<newline>'' @
                              text profileData @ js ''\<newline>Has Profile Picture: '' @
                              flag_text (hasProfilePic profileData)))]])]),
      parseResponse = (\<lambda>parse response.
        and_then (and_then (and_then (get_prop (js ''content'') response) get_first)
          (get_prop (js ''text''))) (JSON_parse parse))\<rparr>"

text \<open>
  \<^verbatim>\<open>API_CONFIGS[provider]\<close>. \<^verbatim>\<open>API_CONFIGS\<close> is an object literal, so a name that
  \<^verbatim>\<open>Object.prototype\<close> defines is found there: the value is not a configuration, and
  it is not falsy either.
\<close>

datatype config_lookup = Own api_config | Inherited | Absent

definition Object_prototype :: "jsstring list" where
  "Object_prototype =
     [js ''constructor'', js ''__defineGetter__'', js ''__defineSetter__'', js ''hasOwnProperty'',
      js ''__lookupGetter__'', js ''__lookupSetter__'', js ''isPrototypeOf'',
      js ''propertyIsEnumerable'', js ''toString'', js ''valueOf'', js ''__proto__'',
      js ''toLocaleString'']"

definition API_CONFIGS :: "jsstring \<Rightarrow> config_lookup" where
  "API_CONFIGS provider =
     (if provider = js ''openai'' then Own openai
      else if provider = js ''gemini'' then Own gemini
      else if provider = js ''anthropic'' then Own anthropic
      else if provider \<in> set Object_prototype then Inherited
      else Absent)"

definition SCORING_PROMPT :: jsstring where
  "SCORING_PROMPT = js (
     ''You are an AI assistant that evaluates LinkedIn profiles based on a strict set of rules. Analyze the following profile text and return ONLY a JSON object with two keys: '' @ [CHR 0x22] @ ''totalScore'' @ [CHR 0x22] @ '' and '' @ [CHR 0x22] @ ''reasoning'' @ [CHR 0x22] @ ''.\<newline>\<newline>'' @
     ''Scoring Rules:\<newline>'' @
     ''- Base Score: 0\<newline>'' @
     ''- Positive Keywords (+10): Add 10 if headline contains: 'Founder', 'VC', 'Investor', 'Angel', 'Entrepreneur', 'Stealth', or 'Building'.\<newline>'' @
     ''- Negative Keywords (-10): Subtract 10 if headline contains: 'banker', 'realtor', or 'loan'.\<newline>'' @
     ''- Industry (+5): Add 5 if headline suggests industries like 'Startup', 'Venture Capital', 'Computer Software', or 'Internet'.\<newline>'' @
     ''- Location (+5): Add 5 if location is 'Bangalore', 'San Francisco', or 'San Francisco Bay Area'.\<newline>'' @
     ''- Profile Picture (+1): Add 1 point if the user has a profile picture (this will be passed as a boolean).\<newline>'' @
     ''- Education (+5): Add 5 if the headline explicitly mentions a globally recognized top-tier university (e.g., 'Stanford', 'MIT', 'CMU', 'IIT').\<newline>\<newline>'' @
     ''Calculate the sum and provide a brief justification in the 'reasoning' string.'')"

subsection \<open>Scoring\<close>

text \<open>The \<^verbatim>\<open>catch\<close> block of \<^verbatim>\<open>callLLMAPI\<close>.\<close>

definition rethrow :: "js_error \<Rightarrow> js_error" where
  "rethrow error =
     (if name error = js ''SyntaxError'' then Error (js ''LLM returned invalid JSON response'')
      else error)"

text \<open>
  \<^verbatim>\<open>callLLMAPI\<close>, with \<^verbatim>\<open>JSON.parse\<close> and \<^verbatim>\<open>fetch\<close> as parameters. The result is
  the list of the HTTP requests issued, and the error thrown or the value returned. The
  body of a response can always be read; \<^verbatim>\<open>response.json()\<close> parses it as
  \<^verbatim>\<open>JSON.parse\<close> does.
\<close>

definition callLLMAPI ::
    "(jsval \<Rightarrow> jsstring + jsval) \<Rightarrow> (http_request \<Rightarrow> fetch_outcome) \<Rightarrow>
     jsstring \<Rightarrow> jsstring \<Rightarrow> jsstring \<Rightarrow> profileData \<Rightarrow>
     http_request list \<times> (js_error + jsval)" where
  "callLLMAPI parse fetch provider model apiKey profileData =
     (case API_CONFIGS provider of
        Absent \<Rightarrow> ([], Inl (Error (js ''Unsupported provider: '' @ provider)))
      | Inherited \<Rightarrow> ([], Inl (rethrow (TypeError (js ''config.headers is not a function''))))
      | Own config \<Rightarrow>
          (let url = (case baseUrl config of
                        Computed f \<Rightarrow> f model apiKey
                      | Fixed u \<Rightarrow> u);
               headers = config_headers config apiKey;
               body = formatRequest config model SCORING_PROMPT profileData;
               request = \<lparr>url = url, headers = headers, body = body\<rparr>
           in ([request],
               case fetch request of
                 FetchRejected error \<Rightarrow> Inl (rethrow error)
               | FetchResolved response \<Rightarrow>
                   if \<not> ok response
                   then Inl (rethrow (Error (js ''API request failed ('' @
                                              digits (status response) @ js ''): '' @
                                              responseText response)))
                   else
                     (case JSON_parse parse (Str (responseText response)) of
                        Inl error \<Rightarrow> Inl (rethrow error)
                      | Inr responseData \<Rightarrow>
                          (case parseResponse config parse responseData of
                             Inl error \<Rightarrow> Inl (rethrow error)
                           | Inr result \<Rightarrow>
                               (case get_prop (js ''totalScore'') result of
                                  Inl error \<Rightarrow> Inl (rethrow error)
                                | Inr totalScore \<Rightarrow>
                                    if typeof totalScore \<noteq> js ''number''
                                    then Inl (rethrow (Error
                                           (js ''Invalid response format from LLM'')))
                                    else
                                      (case get_prop (js ''reasoning'') result of
                                         Inl error \<Rightarrow> Inl (rethrow error)
                                       | Inr reasoning \<Rightarrow>
                                           if typeof reasoning \<noteq> js ''string''
                                           then Inl (rethrow (Error
                                                  (js ''Invalid response format from LLM'')))
                                           else Inr result)))))))"

text \<open>
  The settings as \<^verbatim>\<open>chrome.storage.sync.get\<close> returns them: a key that was never saved
  is \<^verbatim>\<open>undefined\<close> (here \<open>None\<close>). A setting is falsy when it is missing or empty.
\<close>

record settings =
  modelProvider :: "jsstring option"
  modelSelection :: "jsstring option"
  apiKey :: "jsstring option"

definition falsy :: "jsstring option \<Rightarrow> bool" where
  "falsy v = (case v of None \<Rightarrow> True | Some s \<Rightarrow> s = [])"

text \<open>\<^verbatim>\<open>error.message || fallback\<close>\<close>

definition message_or :: "js_error \<Rightarrow> jsstring \<Rightarrow> jsstring" where
  "message_or error fallback = (if message error = [] then fallback else message error)"

text \<open>
  The two fields \<^verbatim>\<open>handleScoreProfile\<close> copies from a validated result into the reply.
\<close>

definition reply_of :: "jsval \<Rightarrow> reply" where
  "reply_of result =
     (case (get_prop (js ''totalScore'') result, get_prop (js ''reasoning'') result) of
        (Inr (Num score), Inr (Str reasoning)) \<Rightarrow> Success score reasoning
      | _ \<Rightarrow> Failure (js ''Failed to score profile''))"

text \<open>
  \<^verbatim>\<open>handleScoreProfile\<close>: \<open>storage\<close> is what \<^verbatim>\<open>chrome.storage.sync.get\<close> comes back
  with, the result is the HTTP requests issued and the reply passed to
  \<^verbatim>\<open>sendResponse\<close>.
\<close>

definition handleScoreProfile ::
    "(jsval \<Rightarrow> jsstring + jsval) \<Rightarrow> (http_request \<Rightarrow> fetch_outcome) \<Rightarrow>
     js_error + settings \<Rightarrow> profileData \<Rightarrow> http_request list \<times> reply" where
  "handleScoreProfile parse fetch storage profileData =
     (case storage of
        Inl error \<Rightarrow> ([], Failure (message_or error (js ''Failed to score profile'')))
      | Inr settings \<Rightarrow>
          if falsy (modelProvider settings) \<or> falsy (modelSelection settings) \<or>
             falsy (apiKey settings)
          then ([], Failure
                 (js ''Extension not configured. Please set up your API key in the popup.''))
          else
            (case callLLMAPI parse fetch (the (modelProvider settings))
                    (the (modelSelection settings)) (the (apiKey settings)) profileData of
               (requests, Inl error) \<Rightarrow>
                 (requests, Failure (message_or error (js ''Failed to score profile'')))
             | (requests, Inr result) \<Rightarrow> (requests, reply_of result)))"

section \<open>The snapshot text in the words of the specification\<close>

text \<open>
  The specification calls the text of a snapshot whitespace-collapsed, newline-collapsed
  and trimmed: the words of the raw text, that is its maximal runs without white space,
  joined by single spaces. \<open>spec_text\<close> is this description, to be compared with what
  \<^verbatim>\<open>extractProfileData\<close> computes.
\<close>

function js_words :: "jsstring \<Rightarrow> jsstring list" where
  "js_words s =
     (case dropWhile is_space s of
        [] \<Rightarrow> []
      | c # cs \<Rightarrow>
          (c # takeWhile (\<lambda>x. \<not> is_space x) cs) # js_words (dropWhile (\<lambda>x. \<not> is_space x) cs))"
  by pat_completeness auto
termination
proof (relation "measure length")
  fix s c cs
  assume "dropWhile is_space s = c # cs"
  then have "length cs < length s"
    using length_dropWhile_le [of is_space s] by simp
  moreover have "length (dropWhile (\<lambda>x. \<not> is_space x) cs) \<le> length cs"
    by (rule length_dropWhile_le)
  ultimately show "(dropWhile (\<lambda>x. \<not> is_space x) cs, s) \<in> measure length"
    by simp
qed simp

declare js_words.simps [simp del]

fun join_words :: "jsstring list \<Rightarrow> jsstring" where
  "join_words [] = []"
| "join_words [w] = w"
| "join_words (w # v # ws) = w @ 32 # join_words (v # ws)"

definition spec_text :: "jsstring \<Rightarrow> jsstring" where
  "spec_text s = join_words (js_words s)"

abbreviation collapse_spaces :: "jsstring \<Rightarrow> jsstring" where
  "collapse_spaces \<equiv> replace_runs is_space [32]"

section \<open>One card, end to end\<close>

text \<open>
  The two scripts together on one card: the synchronous part of
  \<^verbatim>\<open>processInvitationCard\<close>, the \<^verbatim>\<open>scoreProfile\<close> message handled by
  \<^verbatim>\<open>handleScoreProfile\<close>, and the suspended call resumed with its reply. The result is
  the card, \<^verbatim>\<open>processedCards\<close>, the console of the page and the HTTP requests issued.
\<close>

definition score_card ::
    "(jsval \<Rightarrow> jsstring + jsval) \<Rightarrow> (http_request \<Rightarrow> fetch_outcome) \<Rightarrow> js_error + settings \<Rightarrow>
     nat \<Rightarrow> nat \<Rightarrow> card \<Rightarrow> jsstring set \<Rightarrow>
     card \<times> jsstring set \<times> console_entry list \<times> http_request list" where
  "score_card parse fetch storage e e' c processed =
     (case processInvitationCard_begin e c processed of
        (Awaiting cardId loadingBadge profileData, c1, processed1, out1) \<Rightarrow>
          (case handleScoreProfile parse fetch storage profileData of
             (requests, response) \<Rightarrow>
               (case processInvitationCard_resume e' loadingBadge (Resolved response) c1 of
                  (c2, out2) \<Rightarrow> (c2, processed1, out1 @ out2, requests)))
      | (r, c1, processed1, out1) \<Rightarrow> (c1, processed1, out1, []))"

text \<open>
  The invariant behind the at-most-once guarantee: the messages sent carry pairwise
  different identities, and each of these identities is in \<^verbatim>\<open>processedCards\<close>.
\<close>

definition marked :: "watcher \<Rightarrow> bool" where
  "marked st \<longleftrightarrow> distinct (map fst (sent st)) \<and> fst ` set (sent st) \<subseteq> processedCards st"

section \<open>Example pages and responses\<close>

text \<open>Two cards whose texts differ only after the first 100 code units.\<close>

definition card_accept :: card where
  "card_accept =
     \<lparr>ownText = js ''Jane Doe, Founder at Acme Corporation, San Francisco Bay Area. Jane and you have 12 mutual connections. Accept'',
      selectors = [js ''.invitation-card''], acceptParent = None, cardContent = None,
      profileImage = None, badges = []\<rparr>"

definition card_ignore :: card where
  "card_ignore =
     \<lparr>ownText = js ''Jane Doe, Founder at Acme Corporation, San Francisco Bay Area. Jane and you have 12 mutual connections. Ignore'',
      selectors = [js ''.invitation-card''], acceptParent = None, cardContent = None,
      profileImage = None, badges = []\<rparr>"

text \<open>
  A page with one card, which has an accept button and no profile image, and the address
  of the invitation manager.
\<close>

definition jane :: card where
  "jane =
     \<lparr>ownText = js ''  Jane Doe, Founder at Acme\<newline>  5 mutual connections   '',
      selectors = [js ''.invitation-card''], acceptParent = Some 27, cardContent = None,
      profileImage = None, badges = []\<rparr>"

definition jane_id :: jsstring where
  "jane_id = js ''SmFuZSBEb2UsIEZvdW5k''"

definition jane_page :: watcher where
  "jane_page = start (Map.empty(0 \<mapsto> jane)) [0]"

definition manager_href :: jsstring where
  "manager_href = js ''https://www.linkedin.com/mynetwork/invitation-manager/received/''"

text \<open>The page after \<^verbatim>\<open>initialize\<close>: the card carries the loading badge.\<close>

definition jane_initialized :: watcher where
  "jane_initialized =
     \<lparr>processedCards = {jane_id},
      elements = Map.empty(0 \<mapsto> insertScoreBadge jane (createLoadingBadge 0)),
      page = [0], observing = True, nextElem = 1, awaiting = [(0, 0)],
      sent = [(jane_id, extractProfileData jane)],
      console =
        [Log (js ''LinkedIn Lead Scorer: Initializing content script''),
         Log (js ''LinkedIn Lead Scorer: Found '' @ digits 1 @ js '' existing invitation cards''),
         Log (js ''LinkedIn Lead Scorer: MutationObserver set up''),
         Log (js ''LinkedIn Lead Scorer: Content script initialized'')]\<rparr>"

text \<open>
  The observer fires for the card while its score is awaited and again afterwards; then
  the reload message arrives.
\<close>

definition jane_reply :: send_outcome where
  "jane_reply = Resolved (Success 21 (js ''Founder keyword +10, photo +1''))"

definition jane_events :: "event list" where
  "jane_events =
     [Initialize manager_href, Mutations [[Element 0 []]], Deliver 0 jane_reply,
      Mutations [[OtherNode], [Element 0 []]]]"

definition jane_scored :: card where
  "jane_scored =
     jane\<lparr>badges := [(27, createScoreBadge 1 21 (js ''Founder keyword +10, photo +1''))]\<rparr>"

definition jane_scored_page :: watcher where
  "jane_scored_page = run [Initialize manager_href, Deliver 0 jane_reply] jane_page"





text \<open>A card that passes the shape checks and whose snapshot text has 6 code units.\<close>

definition hi_bob :: card where
  "hi_bob =
     \<lparr>ownText = js ''Hi     \<newline>     Bob'',
      selectors = [js ''.invitation-card''], acceptParent = Some 2, cardContent = None,
      profileImage = None, badges = []\<rparr>"

definition hi_bob_page :: watcher where
  "hi_bob_page = start (Map.empty(0 \<mapsto> hi_bob)) [0]"

text \<open>Settings, complete and without the key.\<close>

definition configured :: settings where
  "configured =
     \<lparr>modelProvider = Some (js ''anthropic''),
      modelSelection = Some (js ''claude-3-haiku-20240307''),
      apiKey = Some (js ''sk-ant-key'')\<rparr>"

definition no_key :: settings where
  "no_key = configured\<lparr>apiKey := None\<rparr>"

text \<open>
  Responses of the provider: a refusal with status 401, and two answers with status 200
  whose text payload is \<^verbatim>\<open>null\<close> and an object with an empty reasoning.
\<close>

definition unauthorized :: http_response where
  \<open>unauthorized = \<lparr>status = 401, responseText = js ''{"error":"invalid x-api-key"}''\<rparr>\<close>

definition null_payload :: http_response where
  \<open>null_payload = \<lparr>status = 200, responseText = js ''{"content":[{"text":"null"}]}''\<rparr>\<close>

definition blank_text :: jsstring where
  \<open>blank_text = js ''{"totalScore":5,"reasoning":""}''\<close>

definition blank_payload :: http_response where
  \<open>blank_payload =
     \<lparr>status = 200,
      responseText =
        js ''{"content":[{"text":"{'' @ [92] @ js ''"totalScore'' @ [92] @ js ''":5,'' @ [92] @
        js ''"reasoning'' @ [92] @ js ''":'' @ [92] @ js ''"'' @ [92] @ js ''"}"}]}''\<rparr>\<close>

text \<open>What \<^verbatim>\<open>JSON.parse\<close> does on the texts of these responses.\<close>

definition parse_example :: "jsval \<Rightarrow> jsstring + jsval" where
  "parse_example v =
     (if v = Str (responseText null_payload)
      then Inr (Obj [(js ''content'', Arr [Obj [(js ''text'', Str (js ''null''))]])])
      else if v = Str (js ''null'') then Inr Null
      else if v = Str (responseText blank_payload)
      then Inr (Obj [(js ''content'', Arr [Obj [(js ''text'', Str blank_text)]])])
      else if v = Str blank_text
      then Inr (Obj [(js ''totalScore'', Num 5), (js ''reasoning'', Str [])])
      else Inl (js ''Unexpected token''))"

text \<open>A \<^verbatim>\<open>fetch\<close> that answers every request with the same response.\<close>

definition respond :: "http_response \<Rightarrow> http_request \<Rightarrow> fetch_outcome" where
  "respond response request = FetchResolved response"

text \<open>Two cards whose texts differ in their inner white space only.\<close>

definition jane_wide :: card where
  "jane_wide = jane\<lparr>ownText := js ''Jane  Doe, Founder at Acme 5 mutual connections''\<rparr>"

definition jane_narrow :: card where
  "jane_narrow = jane\<lparr>ownText := js ''Jane Doe, Founder at Acme 5 mutual connections''\<rparr>"

section \<open>Properties\<close>

subsection \<open>Auxiliary facts\<close>

lemmas eval_text = textContent_def badges_in_order_def trim_def is_space_def js_def substring0_def
  querySelector_badge_def

lemmas eval_id = getCardId_def btoa_def b64_char_def b64_alphabet_def is_alnum_def




lemma js_Nil [simp]: "js s = [] \<longleftrightarrow> s = []"
  by (simp add: js_def)

lemma length_js [simp]: "length (js s) = length s"
  by (simp add: js_def)

lemma rethrow_Error [simp]: "rethrow (Error m) = Error m"
  by (simp add: rethrow_def Error_def js_def)

lemma rethrow_TypeError [simp]: "rethrow (TypeError m) = TypeError m"
  by (simp add: rethrow_def TypeError_def js_def)

lemma rethrow_SyntaxError [simp]:
  "rethrow (SyntaxError m) = Error (js ''LLM returned invalid JSON response'')"
  by (simp add: rethrow_def SyntaxError_def)

lemma querySelector_badge_None [simp]: "querySelector_badge c = None \<longleftrightarrow> badges c = []"
proof -
  have "sort_key fst (badges c) = [] \<longleftrightarrow> badges c = []"
    using length_sort [of fst "badges c"] by (metis length_0_conv)
  then show ?thesis
    by (cases "sort_key fst (badges c)") (auto simp: querySelector_badge_def badges_in_order_def)
qed

lemma badge_not_valid: "badges c \<noteq> [] \<Longrightarrow> \<not> isValidInvitationCard c"
  by (simp add: isValidInvitationCard_def Let_def)

lemma findInvitationCards_console [simp]:
  "findInvitationCards (st\<lparr>console := x\<rparr>) = findInvitationCards st"
  by (simp add: findInvitationCards_def querySelectorAll_def)

lemma findInvitationCards_single:
  assumes "elements st = Map.empty(h \<mapsto> c)" and "page st = [h]"
  shows "findInvitationCards st =
           (if isValidInvitationCard c \<and>
               list_ex (\<lambda>selector. selector \<in> set (selectors c)) invitationCard_selectors
            then [h] else [])"
  using assms
  by (auto simp: findInvitationCards_def querySelectorAll_def invitationCard_selectors_def)












lemma visit_sent:
  "visit h st = Inr (f, st') \<Longrightarrow> set (sent st) \<subseteq> set (sent st')"
  by (auto simp: visit_def processInvitationCard_def
      split: option.splits sum.splits bool.splits prod.splits begun.splits)

lemma forEach_visit_sent:
  "forEach_visit hs (f, st) = (thrown, f', st') \<Longrightarrow> set (sent st) \<subseteq> set (sent st')"
proof (induction hs arbitrary: f st)
  case Nil
  then show ?case by simp
next
  case (Cons h hs)
  show ?case
  proof (cases "visit h st")
    case (Inl err)
    with Cons.prems show ?thesis by simp
  next
    case (Inr p)
    obtain f1 st1 where p: "p = (f1, st1)" by (cases p)
    with Inr Cons.prems have "forEach_visit hs (f \<or> f1, st1) = (thrown, f', st')" by simp
    from Cons.IH [OF this] visit_sent [of h st f1 st1] Inr p show ?thesis by auto
  qed
qed


subsection \<open>The example page\<close>

lemma getCardId_jane: "getCardId jane = Inr jane_id"
  by (simp add: jane_def jane_id_def eval_text eval_id)

lemma jane_valid: "isValidInvitationCard jane"
  by (simp add: jane_def isValidInvitationCard_def eval_text)

lemma jane_data:
  "extractProfileData jane =
     \<lparr>text = js ''Jane Doe, Founder at Acme 5 mutual connections'', hasProfilePic = None\<rparr>"
  by (simp add: jane_def extractProfileData_def eval_text)

lemma manager: "isInvitationManagerPage manager_href"
  by (simp add: isInvitationManagerPage_def manager_href_def js_def)

lemma jane_begin:
  "processInvitationCard_begin e jane P =
     (Awaiting jane_id e (extractProfileData jane), insertScoreBadge jane (createLoadingBadge e),
      insert jane_id P, [])"
  by (simp add: processInvitationCard_begin_def getCardId_jane Let_def)
     (simp add: jane_data createLoadingBadge_def)

lemma jane_selected:
  "list_ex (\<lambda>selector. selector \<in> set (selectors jane)) invitationCard_selectors"
  by (simp add: jane_def invitationCard_selectors_def js_def)

lemma jane_initialize: "initialize manager_href jane_page = jane_initialized"
proof -
  have f: "findInvitationCards jane_page = [0]"
    by (simp add: findInvitationCards_single [where h = 0 and c = jane] jane_page_def start_def
        jane_valid jane_selected)
  have u: "isCardProcessed {} jane = Inr False"
    by (simp add: isCardProcessed_def getCardId_jane) (simp add: jane_def)
  show ?thesis
    apply (simp add: initialize_def manager Let_def processExistingCards_def f)
    apply (simp add: jane_page_def start_def visit_def u processInvitationCard_def jane_begin
        jane_initialized_def)
    done
qed

lemma jane_deliver:
  "elements (deliver 0 jane_reply jane_initialized) =
     Map.empty(0 \<mapsto> jane_scored) \<and>
   page (deliver 0 jane_reply jane_initialized) = [0] \<and>
   sent (deliver 0 jane_reply jane_initialized) =
     [(jane_id, extractProfileData jane)] \<and>
   awaiting (deliver 0 jane_reply jane_initialized) = [] \<and>
   processedCards (deliver 0 jane_reply jane_initialized) =
     {jane_id}"
  by (simp add: deliver_def jane_initialized_def jane_reply_def processInvitationCard_resume_def
      insertScoreBadge_def remove_badge_def createLoadingBadge_def jane_scored_def Let_def)
     (simp add: jane_def)

lemma jane_scored_page_fields:
  "elements jane_scored_page = Map.empty(0 \<mapsto> jane_scored) \<and> page jane_scored_page = [0] \<and>
   sent jane_scored_page = [(jane_id, extractProfileData jane)] \<and>
   awaiting jane_scored_page = [] \<and> processedCards jane_scored_page = {jane_id}"
  using jane_deliver by (simp add: jane_scored_page_def run_def jane_initialize)


lemma deliver_observing [simp]: "observing (deliver k outcome st) = observing st"
  by (simp add: deliver_def Let_def split: prod.splits option.splits)

lemma mutation_of_badged_card:
  assumes "elements st h = Some c" and "badges c \<noteq> []"
  shows "mutation_callback [[Element h []]] st = st"
    and "mutation_callback [[OtherNode], [Element h []]] st = st"
  using assms
  by (simp_all add: mutation_callback_def visit_node_def isInvitationCard_def badge_not_valid)

lemma jane_events_run: "run jane_events jane_page = jane_scored_page"
proof -
  have 1: "mutation_callback [[Element 0 []]] jane_initialized = jane_initialized"
    by (rule mutation_of_badged_card [where c = "insertScoreBadge jane (createLoadingBadge 0)"])
       (simp_all add: jane_initialized_def insertScoreBadge_def)
  have 2: "mutation_callback [[OtherNode], [Element 0 []]] (deliver 0 jane_reply jane_initialized) =
      deliver 0 jane_reply jane_initialized"
    by (rule mutation_of_badged_card [where c = jane_scored])
       (simp_all add: jane_deliver jane_scored_def)
  have o: "observing jane_initialized"
    by (simp add: jane_initialized_def)
  show ?thesis
    by (simp add: jane_events_def jane_scored_page_def run_def jane_initialize 1 2 o)
qed

subsection \<open>At most one submission per identity\<close>

lemma begin_Awaiting:
  assumes "processInvitationCard_begin e c processed = (Awaiting cardId lb pd, c', processed', out)"
  shows "getCardId c = Inr cardId \<and> processed' = insert cardId processed"
  using assms
  by (auto simp: processInvitationCard_begin_def Let_def split: sum.splits if_splits)

lemma begin_processed:
  "processInvitationCard_begin e c processed = (r, c', processed', out) \<Longrightarrow> processed \<subseteq> processed'"
  by (auto simp: processInvitationCard_begin_def Let_def split: sum.splits if_splits)

lemma visit_marked:
  assumes "marked st" and "visit h st = Inr (f, st')"
  shows "marked st'"
proof (cases "elements st h")
  case None
  with assms show ?thesis by (simp add: visit_def)
next
  case (Some c)
  show ?thesis
  proof (cases "isCardProcessed (processedCards st) c")
    case (Inl err)
    with Some assms show ?thesis by (simp add: visit_def)
  next
    case (Inr b)
    show ?thesis
    proof (cases b)
      case True
      with Inr Some assms show ?thesis by (simp add: visit_def)
    next
      case False
      with Inr Some assms have st': "st' = processInvitationCard h st"
        by (simp add: visit_def)
      from False Inr obtain cardId where id: "getCardId c = Inr cardId" "cardId \<notin> processedCards st"
        by (auto simp: isCardProcessed_def split: sum.splits)
      obtain r c' processed' out where
        b: "processInvitationCard_begin (nextElem st) c (processedCards st) = (r, c', processed', out)"
        by (cases "processInvitationCard_begin (nextElem st) c (processedCards st)") auto
      show ?thesis
      proof (cases r)
        case (Awaiting cid lb pd)
        with b begin_Awaiting id have "cid = cardId" "processed' = insert cardId (processedCards st)"
          by fastforce+
        with Awaiting b Some st' id assms(1) show ?thesis
          by (auto simp: marked_def processInvitationCard_def)
      next
        case (Rejected err)
        with b Some st' assms(1) begin_processed [OF b] show ?thesis
          by (auto simp: marked_def processInvitationCard_def)
      next
        case Skipped
        with b Some st' assms(1) begin_processed [OF b] show ?thesis
          by (auto simp: marked_def processInvitationCard_def)
      qed
    qed
  qed
qed

lemma forEach_visit_marked:
  "marked st \<Longrightarrow> forEach_visit hs (found, st) = (thrown, found', st') \<Longrightarrow> marked st'"
proof (induction hs arbitrary: found st)
  case Nil
  then show ?case by simp
next
  case (Cons h hs)
  then show ?case
    by (auto split: sum.splits dest: visit_marked)
qed

lemma marked_console [simp]: "marked (st\<lparr>console := x\<rparr>) = marked st"
  by (simp add: marked_def)

lemma marked_observing [simp]: "marked (st\<lparr>observing := x\<rparr>) = marked st"
  by (simp add: marked_def)

lemma processExistingCards_marked:
  "marked st \<Longrightarrow> processExistingCards st = (thrown, st') \<Longrightarrow> marked st'"
  by (auto simp: processExistingCards_def Let_def split: prod.splits dest!: forEach_visit_marked[rotated])

lemma initialize_marked: "marked st \<Longrightarrow> marked (initialize href st)"
  by (auto simp: initialize_def Let_def split: prod.splits option.splits dest!: processExistingCards_marked[rotated])

lemma visit_node_marked:
  "marked st \<Longrightarrow> visit_node n (found, st) = (thrown, found', st') \<Longrightarrow> marked st'"
  by (auto simp: visit_node_def split: node.splits option.splits sum.splits if_splits
           dest: visit_marked forEach_visit_marked)

lemma forEach_node_marked:
  "marked st \<Longrightarrow> forEach_node ns (found, st) = (thrown, found', st') \<Longrightarrow> marked st'"
proof (induction ns arbitrary: found st)
  case Nil
  then show ?case by simp
next
  case (Cons n ns)
  then show ?case
    by (auto split: prod.splits option.splits dest: visit_node_marked)
qed

lemma mutation_callback_marked: "marked st \<Longrightarrow> marked (mutation_callback ms st)"
  by (auto simp: mutation_callback_def split: prod.splits option.splits dest: forEach_node_marked)

lemma deliver_marked: "marked st \<Longrightarrow> marked (deliver k outcome st)"
  by (auto simp: deliver_def marked_def Let_def split: prod.splits option.splits)

lemma step_marked: "marked st \<Longrightarrow> ev \<noteq> ExtensionReloaded \<Longrightarrow> marked (step ev st)"
  by (cases ev) (auto simp: initialize_marked mutation_callback_marked deliver_marked, simp add: marked_def)

lemma run_marked: "marked st \<Longrightarrow> ExtensionReloaded \<notin> set evs \<Longrightarrow> marked (run evs st)"
  unfolding run_def
  by (induction evs arbitrary: st) (auto simp: step_marked)

lemma distinct_keys_once:
  "distinct (map fst xs) \<Longrightarrow> length (filter (\<lambda>m. fst m = k) xs) \<le> 1"
  by (induction xs) (auto simp: filter_empty_conv image_iff)

text \<open>
  C1. \<^verbatim>\<open>processInvitationCard\<close> adds the identity of the card to \<^verbatim>\<open>processedCards\<close>
  in its synchronous part, whatever follows; and in every run of the watcher without a
  reload message, whatever the order of observer callbacks, resumed calls and changes of
  the page, each identity is sent for scoring at most once, and every identity sent is in
  \<^verbatim>\<open>processedCards\<close>.
\<close>

theorem scored_at_most_once:
  assumes "ExtensionReloaded \<notin> set evs"
  shows "(getCardId c = Inr cardId \<longrightarrow>
            fst (snd (snd (processInvitationCard_begin e c processed))) = insert cardId processed) \<and>
         length (filter (\<lambda>m. fst m = k) (sent (run evs (start els p)))) \<le> 1 \<and>
         fst ` set (sent (run evs (start els p))) \<subseteq> processedCards (run evs (start els p))"
proof -
  have "marked (start els p)"
    by (simp add: marked_def start_def)
  from run_marked [OF this assms] have m: "marked (run evs (start els p))" .
  have "getCardId c = Inr cardId \<longrightarrow>
      fst (snd (snd (processInvitationCard_begin e c processed))) = insert cardId processed"
    by (simp add: processInvitationCard_begin_def Let_def)
  moreover from m have "distinct (map fst (sent (run evs (start els p))))"
    by (simp add: marked_def)
  then have "length (filter (\<lambda>m. fst m = k) (sent (run evs (start els p)))) \<le> 1"
    by (rule distinct_keys_once)
  moreover from m have
    "fst ` set (sent (run evs (start els p))) \<subseteq> processedCards (run evs (start els p))"
    by (simp add: marked_def)
  ultimately show ?thesis by blast
qed

theorem scored_at_most_once_witness:
  "ExtensionReloaded \<notin> set jane_events \<and>
   getCardId jane = Inr jane_id \<and>
   fst (snd (snd (processInvitationCard_begin 0 jane {}))) = {jane_id} \<and>
   sent (run jane_events jane_page) = [(jane_id, extractProfileData jane)] \<and>
   length (filter (\<lambda>m. fst m = jane_id) (sent (run jane_events jane_page))) \<le> 1 \<and>
   fst ` set (sent (run jane_events jane_page)) \<subseteq> processedCards (run jane_events jane_page)"
proof -
  have "ExtensionReloaded \<notin> set jane_events"
    by (simp add: jane_events_def)
  from scored_at_most_once [OF this, of jane jane_id 0 "{}" jane_id "Map.empty(0 \<mapsto> jane)" "[0]"]
  show ?thesis
    by (simp add: jane_page_def [symmetric] getCardId_jane jane_events_run
        jane_scored_page_fields)
       (simp add: jane_events_def)
qed


subsection \<open>Card identity\<close>

lemma getCardId_reads_inner_white_space:
  "text (extractProfileData jane_wide) = text (extractProfileData jane_narrow) \<and>
   getCardId jane_wide = Inr (js ''SmFuZSAgRG9lLCBGb3Vu'') \<and>
   getCardId jane_narrow = Inr (js ''SmFuZSBEb2UsIEZvdW5k'')"
  by (simp add: jane_wide_def jane_narrow_def jane_def extractProfileData_def eval_text eval_id)

text \<open>
  C2, as stated, fails when the normalized text of a card is the text of its snapshot
  (white space collapsed, trimmed), which is what the specification calls normalized:
  two cards that differ in their inner white space only have the same snapshot text,
  hence the same first 100 code units of it, and different identities.
\<close>

theorem snapshot_text_does_not_fix_identity:
  "substring0 100 (text (extractProfileData jane_wide)) =
     substring0 100 (text (extractProfileData jane_narrow)) \<and>
   getCardId jane_wide \<noteq> getCardId jane_narrow"
  using getCardId_reads_inner_white_space by (simp add: js_def)

text \<open>
  C2, amended. \<^verbatim>\<open>getCardId\<close> is a function of the text content of the card alone, and
  two cards whose trimmed text contents (leading and trailing white space removed, inner
  white space as it is) have the same first 100 code units get the same identity (or both
  make \<^verbatim>\<open>btoa\<close> throw the same exception).
\<close>

theorem getCardId_leading_text:
  assumes "substring0 100 (trim (textContent c1)) = substring0 100 (trim (textContent c2))"
  shows "getCardId c1 = getCardId c2"
  using assms by (simp add: getCardId_def)

theorem getCardId_leading_text_witness:
  "substring0 100 (trim (textContent card_accept)) =
     substring0 100 (trim (textContent card_ignore)) \<and>
   textContent card_accept \<noteq> textContent card_ignore \<and>
   getCardId card_accept = getCardId card_ignore"
proof -
  have same: "substring0 100 (trim (textContent card_accept)) =
      substring0 100 (trim (textContent card_ignore))"
    by (simp add: card_accept_def card_ignore_def textContent_def badges_in_order_def trim_def
        is_space_def js_def substring0_def)
  have "textContent card_accept \<noteq> textContent card_ignore"
    by (simp add: card_accept_def card_ignore_def textContent_def badges_in_order_def js_def)
  with same getCardId_leading_text [OF same] show ?thesis
    by simp
qed

subsection \<open>Score tiers\<close>

text \<open>
  C3. For every integer score the class is fixed by the tier table, lower bounds
  inclusive: 20 and above is excellent, 10 to 19 good, 5 to 9 fair, 0 to 4 poor, below 0
  negative.
\<close>

theorem getScoreClass_tiers:
  fixes s :: int
  shows "(20 \<le> s \<longrightarrow> getScoreClass (of_int s) = js ''score-excellent'') \<and>
         (10 \<le> s \<and> s \<le> 19 \<longrightarrow> getScoreClass (of_int s) = js ''score-good'') \<and>
         (5 \<le> s \<and> s \<le> 9 \<longrightarrow> getScoreClass (of_int s) = js ''score-fair'') \<and>
         (0 \<le> s \<and> s \<le> 4 \<longrightarrow> getScoreClass (of_int s) = js ''score-poor'') \<and>
         (s < 0 \<longrightarrow> getScoreClass (of_int s) = js ''score-negative'')"
  by (simp add: getScoreClass_def)

theorem getScoreClass_tiers_witness:
  "getScoreClass 20 = js ''score-excellent'' \<and> getScoreClass 19 = js ''score-good'' \<and>
   getScoreClass 10 = js ''score-good'' \<and> getScoreClass 9 = js ''score-fair'' \<and>
   getScoreClass 5 = js ''score-fair'' \<and> getScoreClass 4 = js ''score-poor'' \<and>
   getScoreClass 0 = js ''score-poor'' \<and> getScoreClass (- 1) = js ''score-negative''"
  using getScoreClass_tiers [of 20] getScoreClass_tiers [of 19] getScoreClass_tiers [of 10]
    getScoreClass_tiers [of 9] getScoreClass_tiers [of 5] getScoreClass_tiers [of 4]
    getScoreClass_tiers [of 0] getScoreClass_tiers [of "- 1"]
  by simp

subsection \<open>How a failed call is classified\<close>

text \<open>The four classes of C4, each under the condition that selects it.\<close>

lemma unsupported_provider:
  assumes "API_CONFIGS provider = Absent"
  shows "callLLMAPI parse fetch provider model key profileData =
           ([], Inl (Error (js ''Unsupported provider: '' @ provider)))"
  using assms by (simp add: callLLMAPI_def)

lemma invalid_json:
  assumes "API_CONFIGS provider = Own config"
    and "\<And>request. fetch request = FetchResolved response"
    and "ok response"
    and "parse (Str (responseText response)) = Inr responseData"
    and "parseResponse config parse responseData = Inl (SyntaxError m)"
  shows "snd (callLLMAPI parse fetch provider model key profileData) =
           Inl (Error (js ''LLM returned invalid JSON response''))"
  using assms by (simp add: callLLMAPI_def Let_def JSON_parse_def)

lemma malformed_response:
  assumes "API_CONFIGS provider = Own config"
    and "\<And>request. fetch request = FetchResolved response"
    and "ok response"
    and "parse (Str (responseText response)) = Inr responseData"
    and "parseResponse config parse responseData = Inr result"
    and "get_prop (js ''totalScore'') result = Inr totalScore"
    and "get_prop (js ''reasoning'') result = Inr reasoning"
    and "typeof totalScore \<noteq> js ''number'' \<or> typeof reasoning \<noteq> js ''string''"
  shows "snd (callLLMAPI parse fetch provider model key profileData) =
           Inl (Error (js ''Invalid response format from LLM''))"
  using assms by (auto simp: callLLMAPI_def Let_def JSON_parse_def)

text \<open>
  C4 fails on the code where the text payload is \<^verbatim>\<open>null\<close>: it is decoded without
  error, it has no numeric \<^verbatim>\<open>totalScore\<close>, and \<^verbatim>\<open>callLLMAPI\<close> throws the
  \<^verbatim>\<open>TypeError\<close> of reading a property of \<^verbatim>\<open>null\<close>, not the error
  \<^verbatim>\<open>Invalid response format from LLM\<close>. \<^verbatim>\<open>handleScoreProfile\<close> still replies with a
  failure. A provider name that \<^verbatim>\<open>Object.prototype\<close> defines is not reported as
  unsupported either.
\<close>

theorem null_payload_is_a_type_error:
  "snd (callLLMAPI parse_example (respond null_payload) (js ''anthropic'')
          (js ''claude-3-haiku-20240307'') (js ''sk-ant-key'') (extractProfileData jane)) =
     Inl (TypeError (js ''Cannot read properties of null (reading 'totalScore')'')) \<and>
   snd (handleScoreProfile parse_example (respond null_payload) (Inr configured)
          (extractProfileData jane)) =
     Failure (js ''Cannot read properties of null (reading 'totalScore')'') \<and>
   callLLMAPI parse_example (respond null_payload) (js ''constructor'')
     (js ''claude-3-haiku-20240307'') (js ''sk-ant-key'') (extractProfileData jane) =
     ([], Inl (TypeError (js ''config.headers is not a function'')))"
proof -
  have p1: "parse_example (Str (responseText null_payload)) =
      Inr (Obj [(js ''content'', Arr [Obj [(js ''text'', Str (js ''null''))]])])"
    by (simp add: parse_example_def)
  have p2: "parse_example (Str (js ''null'')) = Inr Null"
    by (simp add: parse_example_def null_payload_def js_def)
  have a: "API_CONFIGS (js ''anthropic'') = Own anthropic"
    by (simp add: API_CONFIGS_def js_def)
  have k: "ok null_payload"
    by (simp add: ok_def null_payload_def)
  have r: "parseResponse anthropic parse_example
      (Obj [(js ''content'', Arr [Obj [(js ''text'', Str (js ''null''))]])]) = Inr Null"
    by (simp add: anthropic_def and_then_def JSON_parse_def p2)
  have 1: "snd (callLLMAPI parse_example (respond null_payload) (js ''anthropic'')
          (js ''claude-3-haiku-20240307'') (js ''sk-ant-key'') (extractProfileData jane)) =
     Inl (TypeError (js ''Cannot read properties of null (reading 'totalScore')''))"
    by (simp add: callLLMAPI_def a Let_def respond_def k JSON_parse_def p1 r cannot_read_def)
       (simp add: js_def)
  then have 2: "snd (handleScoreProfile parse_example (respond null_payload) (Inr configured)
          (extractProfileData jane)) =
     Failure (js ''Cannot read properties of null (reading 'totalScore')'')"
    by (cases "callLLMAPI parse_example (respond null_payload) (js ''anthropic'')
          (js ''claude-3-haiku-20240307'') (js ''sk-ant-key'') (extractProfileData jane)")
       (simp add: handleScoreProfile_def configured_def falsy_def message_or_def TypeError_def)
  have 3: "callLLMAPI parse_example (respond null_payload) (js ''constructor'')
     (js ''claude-3-haiku-20240307'') (js ''sk-ant-key'') (extractProfileData jane) =
     ([], Inl (TypeError (js ''config.headers is not a function'')))"
    by (simp add: callLLMAPI_def API_CONFIGS_def Object_prototype_def js_def)
  from 1 2 3 show ?thesis by simp
qed

subsection \<open>The shape of a returned result\<close>

lemma blank_payload_result:
  "snd (callLLMAPI parse_example (respond blank_payload) (js ''anthropic'')
          (js ''claude-3-haiku-20240307'') (js ''sk-ant-key'') (extractProfileData jane)) =
     Inr (Obj [(js ''totalScore'', Num 5), (js ''reasoning'', Str [])])"
proof -
  have n: "responseText blank_payload \<noteq> responseText null_payload"
    "responseText blank_payload \<noteq> js ''null''" "blank_text \<noteq> responseText null_payload"
    "blank_text \<noteq> js ''null''" "blank_text \<noteq> responseText blank_payload"
    by (simp_all add: blank_payload_def null_payload_def blank_text_def js_def)
  have p1: "parse_example (Str (responseText blank_payload)) =
      Inr (Obj [(js ''content'', Arr [Obj [(js ''text'', Str blank_text)]])])"
    by (simp add: parse_example_def n)
  have p2: "parse_example (Str blank_text) =
      Inr (Obj [(js ''totalScore'', Num 5), (js ''reasoning'', Str [])])"
    by (simp add: parse_example_def n)
  have a: "API_CONFIGS (js ''anthropic'') = Own anthropic"
    by (simp add: API_CONFIGS_def js_def)
  have k: "ok blank_payload"
    by (simp add: ok_def blank_payload_def)
  have r: "parseResponse anthropic parse_example
      (Obj [(js ''content'', Arr [Obj [(js ''text'', Str blank_text)]])]) =
      Inr (Obj [(js ''totalScore'', Num 5), (js ''reasoning'', Str [])])"
    by (simp add: anthropic_def and_then_def JSON_parse_def p2)
  show ?thesis
    by (simp add: callLLMAPI_def a Let_def respond_def k JSON_parse_def p1 r)
       (simp add: js_def)
qed

text \<open>
  C5, as stated, fails: a payload with a numeric \<^verbatim>\<open>totalScore\<close> and the empty string
  as \<^verbatim>\<open>reasoning\<close> is returned.
\<close>

theorem blank_reasoning_is_returned:
  "snd (callLLMAPI parse_example (respond blank_payload) (js ''anthropic'')
          (js ''claude-3-haiku-20240307'') (js ''sk-ant-key'') (extractProfileData jane)) =
     Inr (Obj [(js ''totalScore'', Num 5), (js ''reasoning'', Str [])]) \<and>
   get_prop (js ''reasoning'') (Obj [(js ''totalScore'', Num 5), (js ''reasoning'', Str [])]) =
     Inr (Str [])"
  using blank_payload_result by (simp add: js_def)

text \<open>
  C5, amended. A result that \<^verbatim>\<open>callLLMAPI\<close> returns has a number as \<^verbatim>\<open>totalScore\<close>
  and a string, possibly empty, as \<^verbatim>\<open>reasoning\<close>, and \<^verbatim>\<open>handleScoreProfile\<close> builds
  its success reply from these two; a decoded payload without this shape is never
  returned.
\<close>

theorem callLLMAPI_result_shape:
  assumes "callLLMAPI parse fetch provider model key profileData = (requests, Inr result)"
  shows "\<exists>n s. get_prop (js ''totalScore'') result = Inr (Num n) \<and>
               get_prop (js ''reasoning'') result = Inr (Str s) \<and>
               reply_of result = Success n s"
proof -
  from assms obtain totalScore reasoning where
    t: "get_prop (js ''totalScore'') result = Inr totalScore" "typeof totalScore = js ''number''" and
    r: "get_prop (js ''reasoning'') result = Inr reasoning" "typeof reasoning = js ''string''"
    by (auto simp: callLLMAPI_def Let_def split: config_lookup.splits fetch_outcome.splits
        if_splits sum.splits)
  from t(2) obtain n where n: "totalScore = Num n"
    by (cases totalScore) (simp_all add: js_def)
  from r(2) obtain s where s: "reasoning = Str s"
    by (cases reasoning) (simp_all add: js_def)
  from t(1) r(1) n s have "reply_of result = Success n s"
    by (simp add: reply_of_def)
  with t(1) r(1) n s show ?thesis
    by blast
qed

theorem callLLMAPI_result_shape_witness:
  "\<exists>requests.
     callLLMAPI parse_example (respond blank_payload) (js ''anthropic'')
       (js ''claude-3-haiku-20240307'') (js ''sk-ant-key'') (extractProfileData jane) =
     (requests, Inr (Obj [(js ''totalScore'', Num 5), (js ''reasoning'', Str [])])) \<and>
     reply_of (Obj [(js ''totalScore'', Num 5), (js ''reasoning'', Str [])]) = Success 5 []"
proof -
  let ?call = "callLLMAPI parse_example (respond blank_payload) (js ''anthropic'')
       (js ''claude-3-haiku-20240307'') (js ''sk-ant-key'') (extractProfileData jane)"
  let ?result = "Obj [(js ''totalScore'', Num 5), (js ''reasoning'', Str [])]"
  from blank_payload_result have c: "?call = (fst ?call, Inr ?result)"
    by (cases ?call) simp
  from callLLMAPI_result_shape [OF c] have "reply_of ?result = Success 5 []"
    by (auto simp: js_def)
  with c show ?thesis
    by blast
qed

subsection \<open>The reload message\<close>



















subsection \<open>Too little text\<close>

text \<open>
  C7. When the snapshot text of a card has fewer than 10 code units,
  \<^verbatim>\<open>processInvitationCard\<close> leaves every element of the page as it is (no badge is
  attached), sends no message and leaves no suspended call behind that could attach a
  badge later; the console gets the one \<^verbatim>\<open>console.log\<close> line of the skip and no
  \<^verbatim>\<open>console.error\<close> (and nothing at all when \<^verbatim>\<open>getCardId\<close> throws).
\<close>

theorem short_text_is_skipped:
  assumes "elements st h = Some c" and "length (text (extractProfileData c)) < 10"
  shows "elements (processInvitationCard h st) = elements st \<and>
         sent (processInvitationCard h st) = sent st \<and>
         awaiting (processInvitationCard h st) = awaiting st \<and>
         console (processInvitationCard h st) = console st @
           (case getCardId c of
              Inl err \<Rightarrow> []
            | Inr cardId \<Rightarrow>
                [Log (js ''LinkedIn Lead Scorer: Insufficient profile data, skipping card'')])"
proof (cases "getCardId c")
  case (Inl err)
  with assms show ?thesis
    by (simp add: processInvitationCard_def processInvitationCard_begin_def fun_upd_idem)
next
  case (Inr cardId)
  with assms show ?thesis
    by (simp add: processInvitationCard_def processInvitationCard_begin_def Let_def fun_upd_idem)
qed

theorem short_text_is_skipped_witness:
  "elements hi_bob_page 0 = Some hi_bob \<and> isValidInvitationCard hi_bob \<and>
   text (extractProfileData hi_bob) = js ''Hi Bob'' \<and>
   elements (processInvitationCard 0 hi_bob_page) = elements hi_bob_page \<and>
   sent (processInvitationCard 0 hi_bob_page) = [] \<and>
   awaiting (processInvitationCard 0 hi_bob_page) = [] \<and>
   console (processInvitationCard 0 hi_bob_page) =
     [Log (js ''LinkedIn Lead Scorer: Insufficient profile data, skipping card'')]"
proof -
  have e: "elements hi_bob_page 0 = Some hi_bob"
    by (simp add: hi_bob_page_def start_def)
  have t: "text (extractProfileData hi_bob) = js ''Hi Bob''"
    by (simp add: hi_bob_def extractProfileData_def eval_text)
  then have l: "length (text (extractProfileData hi_bob)) < 10"
    by simp
  have v: "isValidInvitationCard hi_bob"
    by (simp add: hi_bob_def isValidInvitationCard_def eval_text)
  have i: "getCardId hi_bob = Inr (js ''SGkgICAgIAogICAgIEJv'')"
    by (simp add: hi_bob_def eval_text eval_id)
  from short_text_is_skipped [OF e l] e t v show ?thesis
    by (simp add: i) (simp add: hi_bob_page_def start_def)
qed

subsection \<open>A refused request\<close>

lemma callLLMAPI_http_error:
  assumes "API_CONFIGS provider = Own config"
    and "\<And>request. fetch request = FetchResolved response"
    and "\<not> ok response"
  shows "snd (callLLMAPI parse fetch provider model key profileData) =
           Inl (Error (js ''API request failed ('' @ digits (status response) @ js ''): '' @
                       responseText response))"
  using assms by (simp add: callLLMAPI_def Let_def)

lemma handleScoreProfile_http_error:
  assumes "\<not> falsy (modelProvider s)" "\<not> falsy (modelSelection s)" "\<not> falsy (apiKey s)"
    and "API_CONFIGS (the (modelProvider s)) = Own config"
    and "\<And>request. fetch request = FetchResolved response"
    and "\<not> ok response"
  shows "snd (handleScoreProfile parse fetch (Inr s) profileData) =
           Failure (js ''API request failed ('' @ digits (status response) @ js ''): '' @
                    responseText response)"
proof -
  have "snd (callLLMAPI parse fetch (the (modelProvider s)) (the (modelSelection s))
               (the (apiKey s)) profileData) =
        Inl (Error (js ''API request failed ('' @ digits (status response) @ js ''): '' @
                    responseText response))"
    by (rule callLLMAPI_http_error [where config = config]) (simp_all add: assms)
  with assms(1-3) show ?thesis
    by (cases "callLLMAPI parse fetch (the (modelProvider s)) (the (modelSelection s))
                 (the (apiKey s)) profileData")
       (simp add: handleScoreProfile_def message_or_def Error_def)
qed

text \<open>
  C8. A card without a badge whose identity can be computed and whose snapshot is long
  enough is processed while the settings are complete and name a provider of the table;
  the provider answers with a status outside 200 to 299. Then the card ends with exactly
  one badge: its class is \<^verbatim>\<open>lead-scorer-badge lead-scorer-error\<close> and its title is
  \<^verbatim>\<open>API request failed (\<close>status in decimal\<^verbatim>\<open>): \<close>body;
  the identity of the card is in \<^verbatim>\<open>processedCards\<close>, and \<^verbatim>\<open>isCardProcessed\<close> does not
  answer false for the card, so no loop processes it again.
\<close>

theorem http_error_badge:
  assumes "getCardId c = Inr cardId"
    and "badges c = []"
    and "\<not> length (text (extractProfileData c)) < 10"
    and "\<not> falsy (modelProvider s)" "\<not> falsy (modelSelection s)" "\<not> falsy (apiKey s)"
    and "API_CONFIGS (the (modelProvider s)) = Own config"
    and "\<forall>request. fetch request = FetchResolved response"
    and "\<not> ok response"
  shows "case score_card parse fetch (Inr s) e e' c processed of
           (c', processed', out, requests) \<Rightarrow>
             map (title \<circ> snd) (badges c') =
               [js ''API request failed ('' @ digits (status response) @ js ''): '' @
                responseText response] \<and>
             map (className \<circ> snd) (badges c') = [js ''lead-scorer-badge lead-scorer-error''] \<and>
             map (elem \<circ> snd) (badges c') = [e'] \<and>
             processed' = insert cardId processed \<and>
             isCardProcessed processed' c' \<noteq> Inr False"
proof -
  let ?msg = "js ''API request failed ('' @ digits (status response) @ js ''): '' @
              responseText response"
  let ?pd = "extractProfileData c"
  let ?c1 = "insertScoreBadge c (createLoadingBadge e)"
  from assms(1,3) have b: "processInvitationCard_begin e c processed =
      (Awaiting cardId e ?pd, ?c1, insert cardId processed, [])"
    by (auto simp: processInvitationCard_begin_def Let_def createLoadingBadge_def)
  have "snd (handleScoreProfile parse fetch (Inr s) ?pd) = Failure ?msg"
    by (rule handleScoreProfile_http_error [where config = config]) (simp_all add: assms)
  then obtain requests where
    h: "handleScoreProfile parse fetch (Inr s) ?pd = (requests, Failure ?msg)"
    by (cases "handleScoreProfile parse fetch (Inr s) ?pd") auto
  have r: "processInvitationCard_resume e' e (Resolved (Failure ?msg)) ?c1 =
      (insertScoreBadge (remove_badge e ?c1) (createErrorBadge e' ?msg),
       [Err (js ''LinkedIn Lead Scorer: Scoring failed:'')])"
    by (simp add: processInvitationCard_resume_def)
  have bs: "map snd (badges (insertScoreBadge (remove_badge e ?c1) (createErrorBadge e' ?msg))) =
      [createErrorBadge e' ?msg]"
    using assms(2) by (simp add: insertScoreBadge_def remove_badge_def createLoadingBadge_def Let_def)
  then have ne: "badges (insertScoreBadge (remove_badge e ?c1) (createErrorBadge e' ?msg)) \<noteq> []"
    by auto
  have t: "title (createErrorBadge e' ?msg) = ?msg"
    "className (createErrorBadge e' ?msg) = js ''lead-scorer-badge lead-scorer-error''"
    "elem (createErrorBadge e' ?msg) = e'"
    by (simp_all add: createErrorBadge_def)
  from bs have fields:
    "map (title \<circ> snd)
       (badges (insertScoreBadge (remove_badge e ?c1) (createErrorBadge e' ?msg))) = [?msg]"
    "map (className \<circ> snd)
       (badges (insertScoreBadge (remove_badge e ?c1) (createErrorBadge e' ?msg))) =
     [js ''lead-scorer-badge lead-scorer-error'']"
    "map (elem \<circ> snd)
       (badges (insertScoreBadge (remove_badge e ?c1) (createErrorBadge e' ?msg))) = [e']"
    using t by (simp_all add: map_map [symmetric] del: map_map)
  from ne have "isCardProcessed (insert cardId processed)
      (insertScoreBadge (remove_badge e ?c1) (createErrorBadge e' ?msg)) \<noteq> Inr False"
    by (simp add: isCardProcessed_def split: sum.splits)
  with b h r fields show ?thesis
    by (simp add: score_card_def)
qed

theorem http_error_badge_witness:
  \<open>getCardId jane = Inr jane_id \<and> \<not> ok unauthorized \<and> status unauthorized = 401 \<and>
   map (title \<circ> snd) (badges (fst (score_card parse_example (respond unauthorized)
      (Inr configured) 0 1 jane {}))) =
     [js ''API request failed (401): {"error":"invalid x-api-key"}''] \<and>
   map (className \<circ> snd) (badges (fst (score_card parse_example (respond unauthorized)
      (Inr configured) 0 1 jane {}))) =
     [js ''lead-scorer-badge lead-scorer-error''] \<and>
   fst (snd (score_card parse_example (respond unauthorized) (Inr configured) 0 1 jane {})) =
     {jane_id}\<close>
proof -
  have 1: "badges jane = []"
    by (simp add: jane_def)
  have 2: "\<not> length (text (extractProfileData jane)) < 10"
    by (simp add: jane_data)
  have 3: "\<not> falsy (modelProvider configured)" "\<not> falsy (modelSelection configured)"
    "\<not> falsy (apiKey configured)"
    by (simp_all add: configured_def falsy_def)
  have 4: "API_CONFIGS (the (modelProvider configured)) = Own anthropic"
    by (simp add: configured_def API_CONFIGS_def js_def)
  have 5: "\<forall>request. respond unauthorized request = FetchResolved unauthorized"
    by (simp add: respond_def)
  have 6: "\<not> ok unauthorized"
    by (simp add: ok_def unauthorized_def)
  have d: "digits (status unauthorized) = js ''401''"
    by (simp add: unauthorized_def digits.simps js_def)
  from http_error_badge [OF getCardId_jane 1 2 3 4 5 6, where parse = parse_example and e = 0
      and e' = 1 and processed = "{}"] 6
  show ?thesis
    by (simp add: getCardId_jane d split: prod.splits)
       (simp add: unauthorized_def js_def)
qed

subsection \<open>The snapshot\<close>

text \<open>The text of the snapshot is the text the specification describes.\<close>

lemma space32 [simp]: "is_space 32"
  by (simp add: is_space_def)

lemma dropWhile_all: "list_all P s \<Longrightarrow> dropWhile P s = []"
  by (simp add: list_all_iff)

lemma collapse_spaces_all: "list_all is_space s \<Longrightarrow> collapse_spaces s = (if s = [] then [] else [32])"
  by (cases s) (simp_all add: dropWhile_all)

lemma collapse_spaces_word: "\<not> is_space c \<Longrightarrow>
  collapse_spaces (c # cs) = (c # takeWhile (\<lambda>x. \<not> is_space x) cs) @ collapse_spaces (dropWhile (\<lambda>x. \<not> is_space x) cs)"
  by (induction cs arbitrary: c) auto

lemma collapse_spaces_lead: "collapse_spaces s = (if s \<noteq> [] \<and> is_space (hd s) then [32] else []) @ collapse_spaces (dropWhile is_space s)"
  by (cases s) auto

lemma js_words_Nil: "dropWhile is_space s = [] \<Longrightarrow> js_words s = []"
  by (subst js_words.simps) (simp del: dropWhile_eq_Nil_conv)

lemma js_words_Cons: "dropWhile is_space s = c # cs \<Longrightarrow>
  js_words s = (c # takeWhile (\<lambda>x. \<not> is_space x) cs) # js_words (dropWhile (\<lambda>x. \<not> is_space x) cs)"
  by (subst js_words.simps) simp


lemma collapse_spaces_no_newline: "x \<in> set (collapse_spaces s) \<Longrightarrow> x = 32 \<or> \<not> is_space x"
  by (induction "is_space" "[32::nat]" s rule: replace_runs.induct) (auto split: if_splits)

lemma replace_none: "list_all (\<lambda>c. \<not> X c) s \<Longrightarrow> replace_runs X r s = s"
  by (induction s) auto

lemma newlines_gone: "replace_runs (\<lambda>c. c = 10) [10] (collapse_spaces s) = collapse_spaces s"
proof (rule replace_none)
  have "is_space 10" by (simp add: is_space_def)
  with collapse_spaces_no_newline [of _ s] have "\<And>x. x \<in> set (collapse_spaces s) \<Longrightarrow> x \<noteq> 10"
    by fastforce
  then show "list_all (\<lambda>c. \<not> c = 10) (collapse_spaces s)"
    by (simp add: list_all_iff)
qed

lemma words_nonspace:
  "w \<in> set (js_words s) \<Longrightarrow> w \<noteq> [] \<and> list_all (\<lambda>x. \<not> is_space x) w"
proof (induction s rule: js_words.induct)
  case (1 s)
  show ?case
  proof (cases "dropWhile is_space s")
    case Nil
    with "1.prems" show ?thesis
      by (simp add: js_words_Nil del: dropWhile_eq_Nil_conv)
  next
    case (Cons c cs)
    then have c: "\<not> is_space c"
      using hd_dropWhile [of is_space s] by auto
    from Cons "1.prems" have "w = c # takeWhile (\<lambda>x. \<not> is_space x) cs \<or>
        w \<in> set (js_words (dropWhile (\<lambda>x. \<not> is_space x) cs))"
      by (simp add: js_words_Cons)
    then show ?thesis
    proof
      assume "w = c # takeWhile (\<lambda>x. \<not> is_space x) cs"
      with c show ?thesis
        by (auto simp: list_all_iff dest: set_takeWhileD)
    next
      assume "w \<in> set (js_words (dropWhile (\<lambda>x. \<not> is_space x) cs))"
      with "1.IH" [OF Cons] show ?thesis .
    qed
  qed
qed

lemma join_ends:
  assumes "\<And>w. w \<in> set ws \<Longrightarrow> w \<noteq> [] \<and> list_all (\<lambda>x. \<not> is_space x) w"
  shows "join_words ws = [] \<or>
         (\<not> is_space (hd (join_words ws)) \<and> \<not> is_space (last (join_words ws)))"
  using assms
proof (induction ws rule: join_words.induct)
  case 1
  then show ?case by simp
next
  case (2 w)
  then have "w \<noteq> []" "list_all (\<lambda>x. \<not> is_space x) w"
    by auto
  then show ?case
    by (auto simp: list_all_iff)
next
  case (3 w v ws)
  then have w: "w \<noteq> []" "list_all (\<lambda>x. \<not> is_space x) w"
    by auto
  from 3 have v: "join_words (v # ws) = [] \<or>
      (\<not> is_space (hd (join_words (v # ws))) \<and> \<not> is_space (last (join_words (v # ws))))"
    by simp
  from "3.prems" [of v] have "v \<noteq> []"
    by simp
  then have "join_words (v # ws) \<noteq> []"
    by (cases ws) auto
  with v w show ?case
    by (auto simp: list_all_iff)
qed

lemma dropWhile_keep: "xs \<noteq> [] \<Longrightarrow> \<not> P (hd xs) \<Longrightarrow> dropWhile P xs = xs"
  by (cases xs) auto

lemma trim_id:
  assumes "x = [] \<or> (\<not> is_space (hd x) \<and> \<not> is_space (last x))"
  shows "trim x = x"
proof (cases "x = []")
  case True
  then show ?thesis by (simp add: trim_def)
next
  case False
  with assms have e: "\<not> is_space (hd x)" "\<not> is_space (last x)"
    by auto
  from False e(1) have 1: "dropWhile is_space x = x"
    by (rule dropWhile_keep)
  from False have "hd (rev x) = last x"
    by (simp add: hd_rev)
  with False e(2) have 2: "dropWhile is_space (rev x) = rev x"
    by (intro dropWhile_keep) simp_all
  from 1 2 show ?thesis
    by (simp add: trim_def)
qed

lemma trim_ends:
  "trim s = [] \<or> (\<not> is_space (hd (trim s)) \<and> \<not> is_space (last (trim s)))"
proof -
  let ?v = "dropWhile is_space s"
  let ?u = "dropWhile is_space (rev ?v)"
  show ?thesis
  proof (cases "?u = []")
    case True
    then show ?thesis by (simp add: trim_def del: dropWhile_eq_Nil_conv)
  next
    case False
    then have h: "\<not> is_space (hd ?u)"
      using hd_dropWhile [of is_space "rev ?v"] by simp
    have v: "?v \<noteq> []"
    proof
      assume "?v = []"
      then have "?u = []"
        by (simp del: dropWhile_eq_Nil_conv)
      with False show False ..
    qed
    then have "\<not> is_space (hd ?v)"
      using hd_dropWhile [of is_space s] by simp
    moreover have "rev ?v = takeWhile is_space (rev ?v) @ ?u"
      by simp
    then have "last (rev ?v) = last ?u"
      using False by (metis last_appendR)
    then have "last ?u = hd ?v"
      using v by (simp add: last_rev)
    ultimately show ?thesis
      using False h by (simp add: trim_def hd_rev last_rev)
  qed
qed


lemma collapse_spaces_join:
  "s = [] \<or> \<not> is_space (last s) \<Longrightarrow> collapse_spaces (dropWhile is_space s) = join_words (js_words s)"
proof (induction s rule: js_words.induct)
  case (1 s)
  show ?case
  proof (cases "dropWhile is_space s")
    case Nil
    then show ?thesis
      by (simp add: js_words_Nil del: dropWhile_eq_Nil_conv)
  next
    case (Cons c cs)
    let ?ns = "\<lambda>x. \<not> is_space x"
    let ?w = "c # takeWhile ?ns cs"
    let ?s' = "dropWhile ?ns cs"
    from Cons have c: "\<not> is_space c"
      using hd_dropWhile [of is_space s] by auto
    have s: "s = takeWhile is_space s @ ?w @ ?s'"
      using Cons takeWhile_dropWhile_id [of is_space s] by simp
    have last: "last ?s' = last s" if "?s' \<noteq> []"
    proof -
      from s have "last s = last ((takeWhile is_space s @ ?w) @ ?s')"
        by (simp only: append_assoc)
      also from that have "\<dots> = last ?s'"
        by (rule last_appendR)
      finally show ?thesis ..
    qed
    from Cons have ne: "s \<noteq> []"
      by auto
    have p: "?s' = [] \<or> \<not> is_space (last ?s')"
    proof (cases "?s' = []")
      case True
      then show ?thesis by (rule disjI1)
    next
      case False
      from last [OF False] "1.prems" ne have "\<not> is_space (last ?s')"
        by simp
      then show ?thesis by (rule disjI2)
    qed
    from "1.IH" [OF Cons p] have IH: "collapse_spaces (dropWhile is_space ?s') = join_words (js_words ?s')" .
    have rest: "collapse_spaces ?s' = (if js_words ?s' = [] then [] else 32 # join_words (js_words ?s'))"
    proof (cases "?s' = []")
      case True
      then show ?thesis
        by (simp add: js_words_Nil del: dropWhile_eq_Nil_conv)
    next
      case False
      then have h: "is_space (hd ?s')"
        using hd_dropWhile [of ?ns cs] by simp
      from False p last_in_set [OF False] have "\<not> list_all is_space ?s'"
        unfolding list_all_iff by blast
      then have "dropWhile is_space ?s' \<noteq> []"
        by (simp add: list_all_iff)
      then obtain d ds where "dropWhile is_space ?s' = d # ds"
        by (cases "dropWhile is_space ?s'") auto
      then have nw: "js_words ?s' \<noteq> []"
        by (simp add: js_words_Cons)
      from False h have "collapse_spaces ?s' = 32 # collapse_spaces (dropWhile is_space ?s')"
        using collapse_spaces_lead [of ?s'] by simp
      with IH nw show ?thesis
        by simp
    qed
    have "collapse_spaces (dropWhile is_space s) = ?w @ collapse_spaces ?s'"
      unfolding Cons by (rule collapse_spaces_word [OF c])
    also have "\<dots> = join_words (?w # js_words ?s')"
      using rest by (cases "js_words ?s'") simp_all
    also have "\<dots> = join_words (js_words s)"
      using Cons by (simp add: js_words_Cons)
    finally show ?thesis .
  qed
qed

lemma js_words_dropWhile: "js_words (dropWhile is_space s) = js_words s"
  by (subst js_words.simps, subst (2) js_words.simps) simp

lemma js_words_trailing:
  "list_all is_space sp \<Longrightarrow> js_words (s @ sp) = js_words s"
proof (induction s rule: js_words.induct)
  case (1 s)
  let ?ns = "\<lambda>x. \<not> is_space x"
  have t: "takeWhile ?ns sp = []"
    using "1.prems" by (cases sp) auto
  show ?case
  proof (cases "dropWhile is_space s")
    case Nil
    with "1.prems" have "dropWhile is_space (s @ sp) = []"
      by (auto simp: list_all_iff)
    with Nil show ?thesis
      by (simp add: js_words_Nil del: dropWhile_eq_Nil_conv)
  next
    case (Cons c cs)
    have "\<not> list_all is_space s"
    proof
      assume "list_all is_space s"
      then have "dropWhile is_space s = []"
        by (rule dropWhile_all)
      with Cons show False
        by simp
    qed
    then have "dropWhile is_space (s @ sp) = dropWhile is_space s @ sp"
      by (auto simp: list_all_iff dropWhile_append1)
    with Cons have d: "dropWhile is_space (s @ sp) = c # (cs @ sp)"
      by simp
    have tw: "takeWhile ?ns (cs @ sp) = takeWhile ?ns cs"
    proof (cases "list_all ?ns cs")
      case True
      then have a: "takeWhile ?ns (cs @ sp) = cs @ takeWhile ?ns sp"
        by (simp add: list_all_iff takeWhile_append2)
      from True have b: "takeWhile ?ns cs = cs"
        by (simp add: list_all_iff)
      show ?thesis
        by (simp only: a b t append_Nil2)
    next
      case False
      then show ?thesis
        by (auto simp: list_all_iff takeWhile_append1)
    qed
    have dw: "dropWhile ?ns (cs @ sp) = dropWhile ?ns cs @ sp"
    proof (cases "list_all ?ns cs")
      case True
      then have "dropWhile ?ns (cs @ sp) = dropWhile ?ns sp"
        by (simp add: list_all_iff dropWhile_append2)
      moreover have "dropWhile ?ns sp = sp"
        using t takeWhile_dropWhile_id [of ?ns sp] by simp
      moreover from True have "dropWhile ?ns cs = []"
        by (simp add: list_all_iff)
      ultimately show ?thesis by simp
    next
      case False
      then show ?thesis
        by (auto simp: list_all_iff dropWhile_append1)
    qed
    from "1.IH" [OF Cons "1.prems"] have
      "js_words (dropWhile ?ns cs @ sp) = js_words (dropWhile ?ns cs)" .
    with d tw dw Cons show ?thesis
      by (simp add: js_words_Cons)
  qed
qed

lemma js_words_trim: "js_words (trim s) = js_words s"
proof -
  let ?v = "dropWhile is_space s"
  have "rev ?v = takeWhile is_space (rev ?v) @ dropWhile is_space (rev ?v)"
    by simp
  then have "rev (rev ?v) =
      rev (dropWhile is_space (rev ?v)) @ rev (takeWhile is_space (rev ?v))"
    by (metis rev_append)
  then have v: "?v = trim s @ rev (takeWhile is_space (rev ?v))"
    by (simp add: trim_def)
  have "list_all is_space (rev (takeWhile is_space (rev ?v)))"
    by (auto simp: list_all_iff dest: set_takeWhileD)
  from js_words_trailing [OF this, of "trim s"] v have "js_words (trim s) = js_words ?v"
    by simp
  then show ?thesis
    by (simp add: js_words_dropWhile)
qed

lemma snapshot_text_collapsed:
  "text (extractProfileData c) = spec_text (textContent c)"
proof -
  let ?u = "trim (textContent c)"
  have ends: "?u = [] \<or> (\<not> is_space (hd ?u) \<and> \<not> is_space (last ?u))"
    by (rule trim_ends)
  then have "dropWhile is_space ?u = ?u"
    by (cases "?u = []") (auto intro: dropWhile_keep)
  moreover from ends have "collapse_spaces (dropWhile is_space ?u) = join_words (js_words ?u)"
    by (intro collapse_spaces_join) auto
  ultimately have "collapse_spaces ?u = join_words (js_words (textContent c))"
    by (simp add: js_words_trim)
  moreover have "trim (join_words (js_words (textContent c))) =
      join_words (js_words (textContent c))"
    by (intro trim_id join_ends words_nonspace)
  ultimately show ?thesis
    by (simp add: extractProfileData_def Let_def newlines_gone spec_text_def)
qed

lemma flag_is_null_without_image:
  "hasProfilePic (extractProfileData c) = None \<longleftrightarrow> profileImage c = None"
  by (simp add: extractProfileData_def Let_def split: option.splits)

text \<open>
  C9 fails on the code for a card without a profile image: the flag of its snapshot is
  \<^verbatim>\<open>null\<close>, not a boolean, and the prompt of the request reads
  \<^verbatim>\<open>Has Profile Picture: null\<close>. The text of the snapshot is as the claim says, and the
  message carries the snapshot as it was built.
\<close>

theorem no_image_flag_is_null:
  "profileImage jane = None \<and>
   extractProfileData jane =
     \<lparr>text = js ''Jane Doe, Founder at Acme 5 mutual connections'', hasProfilePic = None\<rparr> \<and>
   flag_text (hasProfilePic (extractProfileData jane)) = js ''null'' \<and>
   fst (processInvitationCard_begin 0 jane {}) = Awaiting jane_id 0 (extractProfileData jane)"
  by (simp add: jane_begin jane_data flag_text_def) (simp add: jane_def)

subsection \<open>Missing settings\<close>

text \<open>
  C10. When the provider, the model or the API key is missing from the settings,
  \<^verbatim>\<open>handleScoreProfile\<close> replies with a failure that carries the configuration
  message, and no HTTP request is issued.
\<close>

theorem unconfigured_fails_without_request:
  assumes "modelProvider s = None \<or> modelSelection s = None \<or> apiKey s = None"
  shows "handleScoreProfile parse fetch (Inr s) profileData =
           ([], Failure (js ''Extension not configured. Please set up your API key in the popup.''))"
  using assms by (auto simp: handleScoreProfile_def falsy_def)

theorem unconfigured_fails_without_request_witness:
  "apiKey no_key = None \<and>
   handleScoreProfile parse_example (respond null_payload) (Inr no_key) (extractProfileData jane) =
     ([], Failure (js ''Extension not configured. Please set up your API key in the popup.''))"
proof -
  have "apiKey no_key = None"
    by (simp add: no_key_def)
  with unconfigured_fails_without_request [of no_key parse_example "respond null_payload"
      "extractProfileData jane"]
  show ?thesis by simp
qed

end
